theory Spec2Isabelle
  imports Main
begin

section \<open>JavaScript values\<close>

text \<open>
  The library \<open>SQuery.js\<close> wraps DOM nodes into \<open>Query\<close> objects (the spec's
  \<^emph>\<open>Handle\<close>). A \<open>Query\<close> object has the fields \<open>length\<close>, the indexed entries
  \<open>this[0] .. this[length - 1]\<close> and \<open>selector\<close>. DOM nodes are references; a
  reference is modelled by a number and two references are identical exactly when
  the numbers are equal.
\<close>

type_synonym node = nat

datatype 'v handle_of = Handle (hlength: 'v) (items: "'v list") (selector: 'v)

datatype jsval =
    JUndefined
  | JNull
  | JBool bool
  | JNum int
  | JStr string
  | JFn nat
  | JNode node
  | JArr "jsval list"
  | JObj "(string \<times> jsval) list"
  | JQuery "jsval handle_of"

type_synonym handle = "jsval handle_of"

text \<open>
  \<open>JArr\<close> stands for every array-like object with a numeric \<open>length\<close> (an Array,
  a NodeList, an HTMLCollection); \<open>JObj\<close> is a plain key/value object without a
  \<open>length\<close> key; \<open>JFn\<close> is a function object; numbers are the integers.
\<close>

fun typeof :: "jsval \<Rightarrow> string" where
  "typeof JUndefined = ''undefined''"
| "typeof JNull = ''object''"
| "typeof (JBool b) = ''boolean''"
| "typeof (JNum n) = ''number''"
| "typeof (JStr s) = ''string''"
| "typeof (JFn f) = ''function''"
| "typeof (JNode x) = ''object''"
| "typeof (JArr xs) = ''object''"
| "typeof (JObj kvs) = ''object''"
| "typeof (JQuery h) = ''object''"

fun truthy :: "jsval \<Rightarrow> bool" where
  "truthy JUndefined = False"
| "truthy JNull = False"
| "truthy (JBool b) = b"
| "truthy (JNum n) = (n \<noteq> 0)"
| "truthy (JStr s) = (s \<noteq> [])"
| "truthy v = True"

text \<open>\<open>v == undefined\<close>: loose equality with \<open>undefined\<close> holds for \<open>undefined\<close> and \<open>null\<close> only.\<close>

fun eq_undefined :: "jsval \<Rightarrow> bool" where
  "eq_undefined JUndefined = True"
| "eq_undefined JNull = True"
| "eq_undefined v = False"

text \<open>\<open>v instanceof Object\<close> and \<open>v instanceof Array\<close>.\<close>

fun instanceof_Object :: "jsval \<Rightarrow> bool" where
  "instanceof_Object (JFn f) = True"
| "instanceof_Object (JNode x) = True"
| "instanceof_Object (JArr xs) = True"
| "instanceof_Object (JObj kvs) = True"
| "instanceof_Object (JQuery h) = True"
| "instanceof_Object v = False"

fun instanceof_Array :: "jsval \<Rightarrow> bool" where
  "instanceof_Array (JArr xs) = True"
| "instanceof_Array v = False"

text \<open>The entries \<open>for (let c of v)\<close> visits when \<open>v\<close> is an array.\<close>

fun array_entries :: "jsval \<Rightarrow> jsval list" where
  "array_entries (JArr xs) = xs"
| "array_entries v = []"

text \<open>The \<open>arguments\<close> object: \<open>arguments[i]\<close> is \<open>undefined\<close> beyond the arguments passed.\<close>

definition arg :: "jsval list \<Rightarrow> nat \<Rightarrow> jsval" where
  "arg args i = (if i < length args then args ! i else JUndefined)"

subsection \<open>Conversion to string\<close>

definition digit_char :: "nat \<Rightarrow> char" where
  "digit_char d = ''0123456789'' ! (d mod 10)"

function string_of_nat :: "nat \<Rightarrow> string" where
  "string_of_nat n =
     (if n < 10 then [digit_char n] else string_of_nat (n div 10) @ [digit_char n])"
  by pat_completeness auto
termination
  by (relation "measure id") auto

definition string_of_int :: "int \<Rightarrow> string" where
  "string_of_int i = (if i < 0 then CHR ''-'' # string_of_nat (nat (- i)) else string_of_nat (nat i))"

fun join :: "string \<Rightarrow> string list \<Rightarrow> string" where
  "join sep [] = []"
| "join sep [x] = x"
| "join sep (x # y # ys) = x @ sep @ join sep (y # ys)"

text \<open>
  \<open>ToString\<close> of the language: an array joins its entries with a comma, writing
  nothing for \<open>null\<close> and \<open>undefined\<close> entries; every other object prints as
  \<open>[object ...]\<close> (the interface name of a DOM node and the source text of a function
  are not modelled: one fixed text stands for each).
\<close>

fun ToString :: "jsval \<Rightarrow> string" where
  "ToString JUndefined = ''undefined''"
| "ToString JNull = ''null''"
| "ToString (JBool b) = (if b then ''true'' else ''false'')"
| "ToString (JNum n) = string_of_int n"
| "ToString (JStr s) = s"
| "ToString (JFn f) = ''function () { [native code] }''"
| "ToString (JNode x) = ''[object HTMLElement]''"
| "ToString (JArr xs) =
     join '','' (map (\<lambda>v. if eq_undefined v then [] else ToString v) xs)"
| "ToString (JObj kvs) = ''[object Object]''"
| "ToString (JQuery h) = ''[object Object]''"

text \<open>
  \<open>v == "..."\<close>: loose equality with a string literal that is not numeric. A string
  compares by content, an object by its string conversion, a number or boolean is
  converted to a number and differs from the non-numeric literal.
\<close>

fun eq_string :: "jsval \<Rightarrow> string \<Rightarrow> bool" where
  "eq_string (JStr s) t = (s = t)"
| "eq_string JUndefined t = False"
| "eq_string JNull t = False"
| "eq_string (JBool b) t = False"
| "eq_string (JNum n) t = False"
| "eq_string v t = (ToString v = t)"

text \<open>\<open>a || b\<close>.\<close>

definition js_or :: "jsval \<Rightarrow> jsval \<Rightarrow> jsval" where
  "js_or a b = (if truthy a then a else b)"

text \<open>
  \<open>v == []\<close>: the literal is a fresh object, so an object is never equal to it
  (objects compare by reference); a primitive is compared with the literal's
  string conversion, the empty string.
\<close>

fun eq_fresh_array :: "jsval \<Rightarrow> bool" where
  "eq_fresh_array (JStr s) = (s = [])"
| "eq_fresh_array (JNum n) = (n = 0)"
| "eq_fresh_array (JBool b) = (\<not> b)"
| "eq_fresh_array v = False"

subsection \<open>Errors\<close>

text \<open>
  The exceptions of the engine and of the DOM, and the strings the library throws
  (named after the place that throws them).
\<close>

datatype error =
    TypeError
  | SyntaxError
  | InvalidCharacterError
  | InvalidSelectorOrDom      \<comment> \<open>thrown by \<open>$\<close>, line 22\<close>
  | NoClassNameGiven          \<comment> \<open>thrown by \<open>addClass\<close>, line 287\<close>
  | OnlyNumberOrString        \<comment> \<open>thrown by \<open>removeChild\<close>, line 598\<close>
  | MethodDoesNotExist        \<comment> \<open>thrown by \<open>$.forQuery\<close>, line 1200\<close>
  | OtherError string

section \<open>The document\<close>

text \<open>
  The DOM is the library's external collaborator. Its state gives every node its
  parent (\<open>None\<close> is \<open>null\<close>), its element children in document order and its
  attributes. Node \<open>0\<close> is the \<open>document\<close> object; it is a node but not an element.
\<close>

record element =
  parentNode :: "node option"
  children :: "node list"
  attributes :: "string \<rightharpoonup> string"

type_synonym dom = "node \<Rightarrow> element"

definition document :: node where
  "document = 0"

type_synonym 'a result = "(error + 'a) \<times> dom"

subsection \<open>Attributes\<close>

definition is_ws :: "char \<Rightarrow> bool" where
  "is_ws c = (c = CHR 0x09 \<or> c = CHR 0x0A \<or> c = CHR 0x0C \<or> c = CHR 0x0D \<or> c = CHR '' '')"

definition upper_lower :: "(char \<times> char) list" where
  "upper_lower = zip ''ABCDEFGHIJKLMNOPQRSTUVWXYZ'' ''abcdefghijklmnopqrstuvwxyz''"

definition is_upper :: "char \<Rightarrow> bool" where
  "is_upper c = (map_of upper_lower c \<noteq> None)"

definition toLowerCase :: "string \<Rightarrow> string" where
  "toLowerCase str = map (\<lambda>c. case map_of upper_lower c of None \<Rightarrow> c | Some l \<Rightarrow> l) str"

text \<open>
  \<open>getAttribute\<close> and \<open>setAttribute\<close> of an element of an HTML document: the name is
  lower-cased, a name that is empty or holds white space, NUL, \<open>/\<close>, \<open>=\<close> or \<open>>\<close>
  is refused, and the value is stored as a string.
\<close>

definition valid_attribute_name :: "string \<Rightarrow> bool" where
  "valid_attribute_name n =
     (n \<noteq> [] \<and> \<not> list_ex (\<lambda>c. is_ws c \<or> c = CHR 0x00 \<or> c = CHR ''/'' \<or> c = CHR ''='' \<or> c = CHR ''>'') n)"

definition store_attribute :: "node \<Rightarrow> string \<Rightarrow> string \<Rightarrow> dom \<Rightarrow> dom" where
  "store_attribute x k v s = s(x := (s x)\<lparr>attributes := (attributes (s x))(k \<mapsto> v)\<rparr>)"

definition getAttribute :: "dom \<Rightarrow> node \<Rightarrow> jsval \<Rightarrow> jsval" where
  "getAttribute s x name =
     (case attributes (s x) (toLowerCase (ToString name)) of None \<Rightarrow> JNull | Some v \<Rightarrow> JStr v)"

definition setAttribute :: "node \<Rightarrow> jsval \<Rightarrow> jsval \<Rightarrow> dom \<Rightarrow> error + dom" where
  "setAttribute x name val s =
     (if valid_attribute_name (ToString name)
      then Inr (store_attribute x (toLowerCase (ToString name)) (ToString val) s)
      else Inl InvalidCharacterError)"

subsection \<open>The class attribute and its token list\<close>

text \<open>
  \<open>className\<close> reflects the \<open>class\<close> attribute (the empty string when the attribute
  is absent). \<open>classList\<close> is the ordered set of the attribute's tokens: the value
  split at ASCII white space, each token kept at its first occurrence. \<open>add\<close> and
  \<open>remove\<close> refuse the empty token (SyntaxError) and a token with white space
  (InvalidCharacterError), change the set and write it back to the attribute, the
  tokens separated by one space.
\<close>

fun split_ws :: "string \<Rightarrow> string \<Rightarrow> string list" where
  "split_ws cur [] = (if cur = [] then [] else [cur])"
| "split_ws cur (c # cs) =
     (if is_ws c then (if cur = [] then split_ws [] cs else cur # split_ws [] cs)
      else split_ws (cur @ [c]) cs)"

definition oset_append :: "'a list \<Rightarrow> 'a \<Rightarrow> 'a list" where
  "oset_append xs x = (if x \<in> set xs then xs else xs @ [x])"

definition ordered_set_parse :: "string \<Rightarrow> string list" where
  "ordered_set_parse str = foldl oset_append [] (split_ws [] str)"

definition className :: "dom \<Rightarrow> node \<Rightarrow> string" where
  "className s x = (case attributes (s x) ''class'' of None \<Rightarrow> [] | Some v \<Rightarrow> v)"

definition set_className :: "node \<Rightarrow> string \<Rightarrow> dom \<Rightarrow> dom" where
  "set_className x v s = store_attribute x ''class'' v s"

definition classList :: "dom \<Rightarrow> node \<Rightarrow> string list" where
  "classList s x = ordered_set_parse (className s x)"

definition token_error :: "string \<Rightarrow> error option" where
  "token_error tok =
     (if tok = [] then Some SyntaxError
      else if list_ex is_ws tok then Some InvalidCharacterError
      else None)"

definition update_class :: "node \<Rightarrow> string list \<Rightarrow> dom \<Rightarrow> dom" where
  "update_class x toks s =
     (if attributes (s x) ''class'' = None \<and> toks = [] then s
      else store_attribute x ''class'' (join '' '' toks) s)"

definition classList_add :: "node \<Rightarrow> string \<Rightarrow> dom \<Rightarrow> error + dom" where
  "classList_add x tok s =
     (case token_error tok of
        Some e \<Rightarrow> Inl e
      | None \<Rightarrow> Inr (update_class x (oset_append (classList s x) tok) s))"

definition classList_remove :: "node \<Rightarrow> string \<Rightarrow> dom \<Rightarrow> error + dom" where
  "classList_remove x tok s =
     (case token_error tok of
        Some e \<Rightarrow> Inl e
      | None \<Rightarrow> Inr (update_class x (removeAll tok (classList s x)) s))"

subsection \<open>The tree\<close>

text \<open>\<open>v.parentNode\<close>: a TypeError on \<open>undefined\<close> and \<open>null\<close>, \<open>undefined\<close> on a value that is no node.\<close>

fun get_parentNode :: "dom \<Rightarrow> jsval \<Rightarrow> error + jsval" where
  "get_parentNode s JUndefined = Inl TypeError"
| "get_parentNode s JNull = Inl TypeError"
| "get_parentNode s (JNode x) =
     Inr (case parentNode (s x) of None \<Rightarrow> JNull | Some p \<Rightarrow> JNode p)"
| "get_parentNode s v = Inr JUndefined"

text \<open>\<open>c.remove()\<close>: takes \<open>c\<close> out of its parent's children and clears its parent.\<close>

definition remove_node :: "node \<Rightarrow> dom \<Rightarrow> dom" where
  "remove_node c s =
     (case parentNode (s c) of
        None \<Rightarrow> s
      | Some p \<Rightarrow>
          (let s1 = s(p := (s p)\<lparr>children := removeAll c (children (s p))\<rparr>)
           in s1(c := (s1 c)\<lparr>parentNode := None\<rparr>)))"

subsection \<open>What the model leaves to the browser\<close>

text \<open>
  Style computation, the inline style, the rendered text and markup of an element
  and the selector engine are taken as parameters, as are the methods of
  \<open>Query.prototype\<close> that are not embedded below (\<open>other_method\<close>, by name): every
  theorem holds for whatever they do. So is the one kind of element that has a
  \<open>length\<close> and indexed entries of its own: \<open>listed_node\<close> says which nodes are
  form or select elements, and \<open>listed\<close> gives the controls of such a form, or the
  options of such a select, in the document at hand.
\<close>

record collab =
  computedStyle :: "dom \<Rightarrow> node \<Rightarrow> string \<Rightarrow> string"
  setProperty :: "node \<Rightarrow> jsval \<Rightarrow> jsval \<Rightarrow> dom \<Rightarrow> dom"
  get_innerText :: "dom \<Rightarrow> node \<Rightarrow> string"
  set_innerText :: "node \<Rightarrow> jsval \<Rightarrow> dom \<Rightarrow> dom"
  get_innerHTML :: "dom \<Rightarrow> node \<Rightarrow> string"
  set_innerHTML :: "node \<Rightarrow> jsval \<Rightarrow> dom \<Rightarrow> dom"
  querySelector :: "dom \<Rightarrow> node \<Rightarrow> string \<Rightarrow> error + node option"
  querySelectorAll :: "dom \<Rightarrow> node \<Rightarrow> string \<Rightarrow> error + node list"
  listed_node :: "node \<Rightarrow> bool"
  listed :: "dom \<Rightarrow> node \<Rightarrow> node list"
  other_method :: "string \<Rightarrow> handle \<Rightarrow> jsval list \<Rightarrow> dom \<Rightarrow> jsval result"

text \<open>
  What \<open>this[0]\<close> is to a method: \<open>undefined\<close> or \<open>null\<close> (any property access
  raises a TypeError), an element, the document, or a value that is no node (a
  property of the DOM is \<open>undefined\<close> on it, and writing one changes no node).
\<close>

datatype target = Nullish | Elem node | Doc | NonNode

fun target_of :: "jsval \<Rightarrow> target" where
  "target_of JUndefined = Nullish"
| "target_of JNull = Nullish"
| "target_of (JNode x) = (if x = document then Doc else Elem x)"
| "target_of v = NonNode"

section \<open>The Query object\<close>

text \<open>\<open>h[i]\<close> of a \<open>Query\<close> object \<open>h\<close>.\<close>

definition handle_entry :: "handle \<Rightarrow> nat \<Rightarrow> jsval" where
  "handle_entry h i = (if i < length (items h) then items h ! i else JUndefined)"

text \<open>
  A node has a \<open>length\<close> when it is a form or select element; the document has
  none.
\<close>

definition has_length :: "collab \<Rightarrow> node \<Rightarrow> bool" where
  "has_length B x = (x \<noteq> document \<and> listed_node B x)"

text \<open>
  \<open>v.length\<close> and \<open>v[i]\<close> of a value that is neither \<open>undefined\<close> nor \<open>null\<close>. The
  \<open>length\<close> of a function is the number of its parameters, which is what \<open>JFn\<close>
  carries. A form has as its \<open>length\<close> the number of its controls and as its
  entries the controls; a select has its options.
\<close>

fun js_length :: "collab \<Rightarrow> dom \<Rightarrow> jsval \<Rightarrow> jsval" where
  "js_length B s (JStr str) = JNum (int (length str))"
| "js_length B s (JArr xs) = JNum (int (length xs))"
| "js_length B s (JQuery h) = hlength h"
| "js_length B s (JFn n) = JNum (int n)"
| "js_length B s (JNode x) =
     (if has_length B x then JNum (int (length (listed B s x))) else JUndefined)"
| "js_length B s v = JUndefined"

fun js_index :: "collab \<Rightarrow> dom \<Rightarrow> jsval \<Rightarrow> nat \<Rightarrow> jsval" where
  "js_index B s (JStr str) i = (if i < length str then JStr [str ! i] else JUndefined)"
| "js_index B s (JArr xs) i = (if i < length xs then xs ! i else JUndefined)"
| "js_index B s (JQuery h) i = handle_entry h i"
| "js_index B s (JNode x) i =
     (if has_length B x \<and> i < length (listed B s x) then JNode (listed B s x ! i) else JUndefined)"
| "js_index B s v i = JUndefined"

text \<open>
  How often \<open>for (let i = 0; i < len; i++)\<close> runs: \<open>len\<close> times for a number,
  never for \<open>undefined\<close> (the only other \<open>length\<close> the constructor stores).
\<close>

fun iterations :: "jsval \<Rightarrow> nat" where
  "iterations (JNum n) = nat n"
| "iterations v = 0"

text \<open>
  \<open>function Query(dom, selector)\<close>, lines 38 to 57, in the document \<open>s\<close>.
  \<open>typeof null\<close> is \<open>"object"\<close>, so \<open>null.length\<close> is read at line 43 and raises.
\<close>

definition Query :: "collab \<Rightarrow> dom \<Rightarrow> jsval \<Rightarrow> jsval \<Rightarrow> error + handle" where
  "Query B s dom0 sel =
     (let len = (if truthy dom0 then js_length B s dom0 else JNum 0) in
      if dom0 = JNull then Inl TypeError
      else if typeof dom0 = ''object'' \<and> eq_undefined (js_length B s dom0)
      then Inr (Handle (JNum 1) [dom0] JUndefined)
      else Inr (Handle len (map (js_index B s dom0) [0..<iterations len]) (js_or sel (JStr []))))"

text \<open>\<open>len >= 1\<close> for a \<open>length\<close> that is a number or \<open>undefined\<close>.\<close>

fun ge_one :: "jsval \<Rightarrow> bool" where
  "ge_one (JNum n) = (1 \<le> n)"
| "ge_one v = False"

text \<open>\<open>function $(nodeSelector)\<close>, lines 11 to 27.\<close>

definition dollar :: "collab \<Rightarrow> jsval \<Rightarrow> dom \<Rightarrow> error + handle" where
  "dollar B nodeSelector s =
     (if nodeSelector = JNull then Inl TypeError
      else if typeof nodeSelector = ''object'' \<and> eq_undefined (js_length B s nodeSelector)
      then Query B s nodeSelector JNull
      else if typeof nodeSelector = ''object'' \<and> ge_one (js_length B s nodeSelector)
      then Query B s nodeSelector JNull
      else if typeof nodeSelector \<noteq> ''string'' then Inl InvalidSelectorOrDom
      else (case querySelectorAll B s document (ToString nodeSelector) of
              Inl e \<Rightarrow> Inl e
            | Inr ns \<Rightarrow> Query B s (JArr (map JNode ns)) nodeSelector))"

text \<open>\<open>this[0]\<close>.\<close>

definition this0 :: "handle \<Rightarrow> jsval" where
  "this0 this = handle_entry this 0"

section \<open>The methods of \<open>Query.prototype\<close>\<close>

text \<open>
  A method takes the receiver, the list of the arguments passed and the document,
  and gives what it returns or throws together with the document it leaves.
  A \<open>Query\<close> object is never changed after its construction, so \<open>return this\<close> is the
  value \<open>JQuery this\<close>.
\<close>

type_synonym query_method = "handle \<Rightarrow> jsval list \<Rightarrow> dom \<Rightarrow> jsval result"

subsection \<open>\<open>css\<close>, lines 145 to 184\<close>

text \<open>
  The keys \<open>for (let name in pattern)\<close> visits, with \<open>pattern[name]\<close>: the
  pairs of a plain object, the indices of an array (the enumerable properties of a
  node and of a \<open>Query\<close> object are not modelled).
\<close>

fun for_in :: "jsval \<Rightarrow> (string \<times> jsval) list" where
  "for_in (JObj kvs) = kvs"
| "for_in (JArr xs) = zip (map string_of_nat [0..<length xs]) xs"
| "for_in v = []"

definition camel_to_kebab :: "string \<Rightarrow> string" where
  "camel_to_kebab key =
     (if list_ex is_upper key
      then concat (map (\<lambda>c. if is_upper c then CHR ''-'' # toLowerCase [c] else [c]) key)
      else key)"

text \<open>\<open>dom.style.setProperty(name, value)\<close>.\<close>

definition style_setProperty :: "collab \<Rightarrow> jsval \<Rightarrow> jsval \<Rightarrow> jsval \<Rightarrow> dom \<Rightarrow> unit result" where
  "style_setProperty B dom0 name val s =
     (case target_of dom0 of
        Elem x \<Rightarrow> (Inr (), setProperty B x name val s)
      | _ \<Rightarrow> (Inl TypeError, s))"

fun css_each :: "collab \<Rightarrow> jsval \<Rightarrow> (string \<times> jsval) list \<Rightarrow> dom \<Rightarrow> unit result" where
  "css_each B dom0 [] s = (Inr (), s)"
| "css_each B dom0 ((name, v) # kvs) s =
     (case style_setProperty B dom0 (JStr (camel_to_kebab name)) v s of
        (Inl e, s') \<Rightarrow> (Inl e, s')
      | (Inr u, s') \<Rightarrow> css_each B dom0 kvs s')"

text \<open>Line 178: \<open>isArg = name == "string" || "number" ? true : false\<close>.\<close>

definition isArg :: "jsval \<Rightarrow> bool" where
  "isArg name =
     (if truthy (js_or (JBool (eq_string name ''string'')) (JStr ''number'')) then True else False)"

definition css :: "collab \<Rightarrow> query_method" where
  "css B this args s =
     (let dom = this0 this; pattern = arg args 0 in
      if typeof pattern = ''string'' \<and> length args = 1 then
        (case target_of dom of
           Elem x \<Rightarrow> (Inr (JStr (computedStyle B s x (ToString pattern))), s)
         | _ \<Rightarrow> (Inl TypeError, s))
      else if instanceof_Object pattern \<and> length args = 1 then
        (case css_each B dom (for_in pattern) s of
           (Inl e, s') \<Rightarrow> (Inl e, s')
         | (Inr u, s') \<Rightarrow> (Inr (JQuery this), s'))
      else
        (let name = arg args 0; val = arg args 1 in
         if length args = 2 \<and> isArg name then
           (case style_setProperty B dom name val s of
              (Inl e, s') \<Rightarrow> (Inl e, s')
            | (Inr u, s') \<Rightarrow> (Inr (JQuery this), s'))
         else (Inr JUndefined, s)))"

subsection \<open>\<open>attr\<close>, lines 191 to 219\<close>

text \<open>\<open>dom.setAttribute(name, value)\<close>.\<close>

definition dom_setAttribute :: "jsval \<Rightarrow> jsval \<Rightarrow> jsval \<Rightarrow> dom \<Rightarrow> unit result" where
  "dom_setAttribute dom0 name val s =
     (case target_of dom0 of
        Elem x \<Rightarrow> (case setAttribute x name val s of Inl e \<Rightarrow> (Inl e, s) | Inr s' \<Rightarrow> (Inr (), s'))
      | _ \<Rightarrow> (Inl TypeError, s))"

fun attr_each :: "jsval \<Rightarrow> (string \<times> jsval) list \<Rightarrow> dom \<Rightarrow> unit result" where
  "attr_each dom0 [] s = (Inr (), s)"
| "attr_each dom0 ((name, v) # kvs) s =
     (case dom_setAttribute dom0 (JStr name) v s of
        (Inl e, s') \<Rightarrow> (Inl e, s')
      | (Inr u, s') \<Rightarrow> attr_each dom0 kvs s')"

definition attr :: query_method where
  "attr this args s =
     (let dom = this0 this; attribute = arg args 0 in
      if typeof attribute = ''string'' \<and> length args = 1 then
        (case target_of dom of
           Elem x \<Rightarrow> (Inr (getAttribute s x attribute), s)
         | _ \<Rightarrow> (Inl TypeError, s))
      else if instanceof_Object attribute \<and> length args = 1 then
        (case attr_each dom (for_in attribute) s of
           (Inl e, s') \<Rightarrow> (Inl e, s')
         | (Inr u, s') \<Rightarrow> (Inr (JQuery this), s'))
      else
        (let name = arg args 0; val = arg args 1 in
         if length args = 2 \<and> isArg name then
           (case dom_setAttribute dom name val s of
              (Inl e, s') \<Rightarrow> (Inl e, s')
            | (Inr u, s') \<Rightarrow> (Inr (JQuery this), s'))
         else (Inr JUndefined, s)))"

subsection \<open>\<open>text\<close>, \<open>html\<close> and \<open>class\<close>, lines 226 to 276\<close>

definition text_m :: "collab \<Rightarrow> query_method" where
  "text_m B this args s =
     (let dom = this0 this; text = arg args 0 in
      if length args \<ge> 1 then
        (case target_of dom of
           Nullish \<Rightarrow> (Inl TypeError, s)
         | Elem x \<Rightarrow> (Inr (JQuery this), set_innerText B x text s)
         | _ \<Rightarrow> (Inr (JQuery this), s))
      else
        (case target_of dom of
           Nullish \<Rightarrow> (Inl TypeError, s)
         | Elem x \<Rightarrow> (Inr (JStr (get_innerText B s x)), s)
         | _ \<Rightarrow> (Inr JUndefined, s)))"

definition html :: "collab \<Rightarrow> query_method" where
  "html B this args s =
     (let dom = this0 this; val = arg args 0 in
      if length args \<ge> 1 then
        (case target_of dom of
           Nullish \<Rightarrow> (Inl TypeError, s)
         | Elem x \<Rightarrow> (Inr (JQuery this), set_innerHTML B x val s)
         | _ \<Rightarrow> (Inr (JQuery this), s))
      else
        (case target_of dom of
           Nullish \<Rightarrow> (Inl TypeError, s)
         | Elem x \<Rightarrow> (Inr (JStr (get_innerHTML B s x)), s)
         | _ \<Rightarrow> (Inr JUndefined, s)))"

definition class_m :: query_method where
  "class_m this args s =
     (let dom = this0 this; taxon = arg args 0 in
      if eq_undefined taxon then
        (case target_of dom of
           Nullish \<Rightarrow> (Inl TypeError, s)
         | Elem x \<Rightarrow> (Inr (JStr (className s x)), s)
         | _ \<Rightarrow> (Inr JUndefined, s))
      else if \<not> eq_undefined taxon \<and> typeof taxon = ''string'' then
        (case target_of dom of
           Nullish \<Rightarrow> (Inl TypeError, s)
         | Elem x \<Rightarrow> (Inr (JQuery this), set_className x (ToString taxon) s)
         | _ \<Rightarrow> (Inr (JQuery this), s))
      else (Inr JUndefined, s))"

subsection \<open>\<open>addClass\<close> and \<open>delClass\<close>, lines 283 to 344\<close>

text \<open>\<open>dom.classList.add(v)\<close> and \<open>dom.classList.remove(v)\<close>; the token is converted to a string.\<close>

definition dom_classList_add :: "jsval \<Rightarrow> jsval \<Rightarrow> dom \<Rightarrow> unit result" where
  "dom_classList_add dom0 v s =
     (case target_of dom0 of
        Elem x \<Rightarrow> (case classList_add x (ToString v) s of Inl e \<Rightarrow> (Inl e, s) | Inr s' \<Rightarrow> (Inr (), s'))
      | _ \<Rightarrow> (Inl TypeError, s))"

definition dom_classList_remove :: "jsval \<Rightarrow> jsval \<Rightarrow> dom \<Rightarrow> unit result" where
  "dom_classList_remove dom0 v s =
     (case target_of dom0 of
        Elem x \<Rightarrow> (case classList_remove x (ToString v) s of Inl e \<Rightarrow> (Inl e, s) | Inr s' \<Rightarrow> (Inr (), s'))
      | _ \<Rightarrow> (Inl TypeError, s))"

text \<open>\<open>for (let className of v) op(className)\<close>, where \<open>op\<close> is one of the two above.\<close>

fun for_of :: "(jsval \<Rightarrow> dom \<Rightarrow> unit result) \<Rightarrow> jsval list \<Rightarrow> dom \<Rightarrow> unit result" where
  "for_of op [] s = (Inr (), s)"
| "for_of op (c # cs) s =
     (case op c s of
        (Inl e, s') \<Rightarrow> (Inl e, s')
      | (Inr u, s') \<Rightarrow> for_of op cs s')"

text \<open>The callback of \<open>arg.map\<close>, lines 296 to 306 and 332 to 342.\<close>

definition class_callback :: "(jsval \<Rightarrow> dom \<Rightarrow> unit result) \<Rightarrow> jsval \<Rightarrow> dom \<Rightarrow> unit result" where
  "class_callback op v s =
     (if typeof v = ''string'' then op v s
      else if instanceof_Array v then for_of op (array_entries v) s
      else (Inr (), s))"

definition addClass :: query_method where
  "addClass this args s =
     (let dom = this0 this; taxon = arg args 0 in
      if length args \<le> 0 then (Inl NoClassNameGiven, s)
      else if length args = 1 \<and> typeof taxon = ''string'' then
        (case dom_classList_add dom taxon s of
           (Inl e, s') \<Rightarrow> (Inl e, s')
         | (Inr u, s') \<Rightarrow> (Inr (JQuery this), s'))
      else
        (case for_of (class_callback (dom_classList_add dom)) args s of
           (Inl e, s') \<Rightarrow> (Inl e, s')
         | (Inr u, s') \<Rightarrow> (Inr (JQuery this), s')))"

definition delClass :: query_method where
  "delClass this args s =
     (let dom = this0 this; taxon = arg args 0 in
      if length args \<le> 0 then
        (case target_of dom of
           Nullish \<Rightarrow> (Inl TypeError, s)
         | Elem x \<Rightarrow> (Inr (JQuery this), set_className x [] s)
         | _ \<Rightarrow> (Inr (JQuery this), s))
      else if length args = 1 \<and> typeof taxon = ''string'' then
        (case dom_classList_remove dom taxon s of
           (Inl e, s') \<Rightarrow> (Inl e, s')
         | (Inr u, s') \<Rightarrow> (Inr (JQuery this), s'))
      else
        (case for_of (class_callback (dom_classList_remove dom)) args s of
           (Inl e, s') \<Rightarrow> (Inl e, s')
         | (Inr u, s') \<Rightarrow> (Inr (JQuery this), s')))"

subsection \<open>\<open>parent\<close>, lines 370 to 399\<close>

text \<open>
  The loop of lines 382 to 387 either returns \<open>domParent\<close> from inside (line 384)
  or runs to its end.
\<close>

datatype loop_exit = Returned jsval | Finished jsval

fun parent_loop :: "dom \<Rightarrow> nat \<Rightarrow> jsval \<Rightarrow> error + loop_exit" where
  "parent_loop s 0 domParent = Inr (Finished domParent)"
| "parent_loop s (Suc k) domParent =
     (if domParent = JNode document then Inr (Returned domParent)
      else (case get_parentNode s domParent of
              Inl e \<Rightarrow> Inl e
            | Inr p \<Rightarrow> parent_loop s k p))"

fun num_of :: "jsval \<Rightarrow> int" where
  "num_of (JNum n) = n"
| "num_of v = 0"

text \<open>\<open>new Query(v, selector)\<close> as the value a method returns.\<close>

definition return_Query :: "collab \<Rightarrow> jsval \<Rightarrow> jsval \<Rightarrow> dom \<Rightarrow> jsval result" where
  "return_Query B v sel s =
     (case Query B s v sel of Inl e \<Rightarrow> (Inl e, s) | Inr h \<Rightarrow> (Inr (JQuery h), s))"

text \<open>\<open>v.querySelector(selector)\<close>.\<close>

definition dom_querySelector :: "collab \<Rightarrow> dom \<Rightarrow> jsval \<Rightarrow> jsval \<Rightarrow> error + jsval" where
  "dom_querySelector B s v sel =
     (case v of
        JNode x \<Rightarrow>
          (case querySelector B s x (ToString sel) of
             Inl e \<Rightarrow> Inl e
           | Inr None \<Rightarrow> Inr JNull
           | Inr (Some y) \<Rightarrow> Inr (JNode y))
      | _ \<Rightarrow> Inl TypeError)"

definition parent :: "collab \<Rightarrow> query_method" where
  "parent B this args s =
     (let dom = this0 this; sel = arg args 0 in
      if \<not> eq_undefined sel \<and> typeof sel = ''number'' \<and> num_of sel > 1 then
        (case parent_loop s (nat (num_of sel)) dom of
           Inl e \<Rightarrow> (Inl e, s)
         | Inr (Returned domParent) \<Rightarrow> (Inr domParent, s)
         | Inr (Finished domParent) \<Rightarrow> return_Query B domParent JNull s)
      else if \<not> eq_undefined sel \<and> typeof sel = ''string'' then
        (case get_parentNode s dom of
           Inl e \<Rightarrow> (Inl e, s)
         | Inr p \<Rightarrow>
             (case get_parentNode s p of
                Inl e \<Rightarrow> (Inl e, s)
              | Inr pp \<Rightarrow>
                  (case dom_querySelector B s pp sel of
                     Inl e \<Rightarrow> (Inl e, s)
                   | Inr selectorParent \<Rightarrow> return_Query B selectorParent sel s)))
      else
        (case get_parentNode s dom of
           Inl e \<Rightarrow> (Inl e, s)
         | Inr p \<Rightarrow> return_Query B p JNull s))"

subsection \<open>\<open>removeChild\<close>, lines 567 to 599\<close>

text \<open>Lines 591 to 595: \<open>dom.children[0].remove()\<close>, as often as there were children.\<close>

fun remove_first :: "node \<Rightarrow> nat \<Rightarrow> dom \<Rightarrow> unit result" where
  "remove_first x 0 s = (Inr (), s)"
| "remove_first x (Suc k) s =
     (case children (s x) of
        [] \<Rightarrow> (Inl TypeError, s)
      | c # cs \<Rightarrow> remove_first x k (remove_node c s))"

text \<open>
  Line 572 is \<open>dom.removeChild[index];\<close>: it reads the property \<open>index\<close> of the
  function \<open>dom.removeChild\<close> and drops the value. It raises when \<open>dom\<close> has no
  such method and changes nothing otherwise.
\<close>

definition removeChild :: "collab \<Rightarrow> query_method" where
  "removeChild B this args s =
     (let dom = this0 this; index = arg args 0 in
      if typeof index = ''number'' then
        (case dom of
           JNode x \<Rightarrow> return_Query B dom JNull s
         | _ \<Rightarrow> (Inl TypeError, s))
      else if typeof index = ''string'' then
        (case dom of
           JNode x \<Rightarrow>
             (case querySelectorAll B s x (ToString index) of
                Inl e \<Rightarrow> (Inl e, s)
              | Inr indexDom \<Rightarrow> return_Query B dom JNull (fold remove_node indexDom s))
         | _ \<Rightarrow> (Inl TypeError, s))
      else if eq_undefined index then
        (case dom of
           JNode x \<Rightarrow>
             (case remove_first x (length (children (s x))) s of
                (Inl e, s') \<Rightarrow> (Inl e, s')
              | (Inr u, s') \<Rightarrow> return_Query B dom JNull s')
         | _ \<Rightarrow> (Inl TypeError, s))
      else (Inl OnlyNumberOrString, s))"

section \<open>\<open>$.forQuery\<close>, lines 939 to 1205\<close>

text \<open>The own properties of \<open>Query.prototype\<close>, the object literal of lines 60 to 923.\<close>

definition Query_prototype :: "string list" where
  "Query_prototype =
     [''each'', ''isEvent'', ''on'', ''bind'', ''css'', ''attr'', ''text'', ''html'', ''class'',
      ''addClass'', ''delClass'', ''toggle'', ''parent'', ''parentAll'', ''children'',
      ''addFirstChild'', ''addLastChild'', ''insertChild'', ''removeChild'', ''firstChild'',
      ''lastChild'', ''child'', ''first'', ''last'', ''eq'', ''prevNode'', ''prevNodeAll'',
      ''nextNode'', ''nextNodeAll'', ''insertElementBefore'', ''insertElementAfter'', ''dom'']"

text \<open>
  The cases of the \<open>switch\<close>, each with the operation its loop calls. Every case has
  the same loop; the methods embedded above stand in their cases, every other case
  calls the operation of its name through \<open>other_method\<close>.
\<close>

definition switch_cases :: "collab \<Rightarrow> (string \<times> query_method) list" where
  "switch_cases B =
     [(''on'', other_method B ''on''),
      (''bind'', other_method B ''bind''),
      (''css'', css B),
      (''attr'', attr),
      (''text'', text_m B),
      (''html'', html B),
      (''class'', class_m),
      (''addClass'', addClass),
      (''delClass'', delClass),
      (''toggle'', other_method B ''toggle''),
      (''addFirstChild'', other_method B ''addFirstChild''),
      (''addLastChild'', other_method B ''addLastChild''),
      (''insertChild'', other_method B ''insertChild''),
      (''removeChild'', removeChild B),
      (''parent'', parent B),
      (''parentAll'', other_method B ''parentAll''),
      (''children'', other_method B ''children''),
      (''firstChild'', other_method B ''firstChild''),
      (''lastChild'', other_method B ''lastChild''),
      (''first'', other_method B ''first''),
      (''last'', other_method B ''last''),
      (''eq'', other_method B ''eq''),
      (''prevNode'', other_method B ''prevNode''),
      (''prevNodeAll'', other_method B ''prevNodeAll''),
      (''nextNode'', other_method B ''nextNode''),
      (''nextNodeAll'', other_method B ''nextNodeAll''),
      (''insertElementBefore'', other_method B ''insertElementBefore''),
      (''insertElementAfter'', other_method B ''insertElementAfter'')]"

text \<open>
  The loop of a case: \<open>thisDom = new Query(Querys[i], null)\<close>, then
  \<open>dom.push(thisDom.m(...arg))\<close>. An exception leaves the loop and \<open>$.forQuery\<close>.
\<close>

fun forQuery_loop ::
  "collab \<Rightarrow> query_method \<Rightarrow> jsval list \<Rightarrow> jsval list \<Rightarrow> jsval list \<Rightarrow> dom \<Rightarrow> (jsval list) result"
where
  "forQuery_loop B m [] args dom0 s = (Inr dom0, s)"
| "forQuery_loop B m (q # qs) args dom0 s =
     (case Query B s q JNull of
        Inl e \<Rightarrow> (Inl e, s)
      | Inr thisDom \<Rightarrow>
          (case m thisDom args s of
             (Inl e, s') \<Rightarrow> (Inl e, s')
           | (Inr r, s') \<Rightarrow> forQuery_loop B m qs args (dom0 @ [r]) s'))"

text \<open>The string of line 1204 (its text is not ASCII in the source).\<close>

definition error_text :: string where
  "error_text = ''Error''"

text \<open>
  \<open>Querys\<close> is a \<open>Query\<close> object (the documented parameter), so \<open>Querys.__proto__\<close> is
  \<open>Query.prototype\<close>. The entries visited are \<open>Querys[0] .. Querys[Querys.length - 1]\<close>.
  The \<open>console.log\<close> of line 942 changes nothing and is left out.
\<close>

definition forQuery :: "collab \<Rightarrow> handle \<Rightarrow> string \<Rightarrow> jsval list \<Rightarrow> dom \<Rightarrow> jsval result" where
  "forQuery B Querys func args s =
     (let finish = (\<lambda>dom. if eq_fresh_array (JArr dom) then JStr error_text else JArr dom) in
      if func \<in> set Query_prototype then
        (case map_of (switch_cases B) func of
           Some m \<Rightarrow>
             (case forQuery_loop B m (map (handle_entry Querys) [0..<iterations (hlength Querys)])
                     args [] s of
                (Inl e, s') \<Rightarrow> (Inl e, s')
              | (Inr dom1, s') \<Rightarrow> (Inr (finish dom1), s'))
         | None \<Rightarrow> (Inl MethodDoesNotExist, s))
      else (Inr (finish []), s))"

section \<open>Notions the properties are stated with\<close>

text \<open>
  The contract of the batch dispatcher in the words of the specification (4.3):
  for each element of the collection, in order, wrap it into a single-element
  handle, invoke the operation with the forwarded arguments and push the result;
  a failure raised by the operation propagates at once and ends the iteration.
\<close>

fun dispatch_spec :: "query_method \<Rightarrow> jsval list \<Rightarrow> jsval list \<Rightarrow> dom \<Rightarrow> (jsval list) result" where
  "dispatch_spec m [] args s = (Inr [], s)"
| "dispatch_spec m (e # es) args s =
     (case m (Handle (JNum 1) [e] JUndefined) args s of
        (Inl err, s') \<Rightarrow> (Inl err, s')
      | (Inr r, s') \<Rightarrow>
          (case dispatch_spec m es args s' of
             (Inl err, s'') \<Rightarrow> (Inl err, s'')
           | (Inr rs, s'') \<Rightarrow> (Inr (r # rs), s'')))"

text \<open>The node \<open>k\<close> parent links above \<open>x\<close>, if the chain is that long.\<close>

fun ancestor :: "dom \<Rightarrow> nat \<Rightarrow> node \<Rightarrow> node option" where
  "ancestor s 0 x = Some x"
| "ancestor s (Suc k) x =
     (case parentNode (s x) of None \<Rightarrow> None | Some p \<Rightarrow> ancestor s k p)"

text \<open>The class names of an element, as a set.\<close>

definition class_set :: "dom \<Rightarrow> node \<Rightarrow> string set" where
  "class_set s x = set (classList s x)"

text \<open>
  A class name that \<open>classList\<close> accepts, and the leaf strings of an argument list
  whose arguments are strings or arrays of strings.
\<close>

definition valid_token :: "string \<Rightarrow> bool" where
  "valid_token tok = (token_error tok = None)"

fun leaves :: "jsval list \<Rightarrow> string list" where
  "leaves [] = []"
| "leaves (JStr str # vs) = str # leaves vs"
| "leaves (JArr cs # vs) = map ToString cs @ leaves vs"
| "leaves (v # vs) = leaves vs"

fun is_JStr :: "jsval \<Rightarrow> bool" where
  "is_JStr (JStr str) = True"
| "is_JStr v = False"

fun class_argument :: "jsval \<Rightarrow> bool" where
  "class_argument (JStr str) = valid_token str"
| "class_argument (JArr cs) = list_all (\<lambda>c. is_JStr c \<and> valid_token (ToString c)) cs"
| "class_argument v = False"

subsection \<open>A small document\<close>

text \<open>
  The document \<open>0\<close> with the element \<open>1\<close> as its root, \<open>2\<close> below it, \<open>3\<close> and
  \<open>4\<close> below \<open>2\<close> and \<open>5\<close> below \<open>3\<close>; element \<open>3\<close> has the classes \<open>a\<close> and \<open>b\<close>.
  Every other node is detached. The browser beside it computes nothing and has no
  form or select element.
\<close>

definition blank :: element where
  "blank = \<lparr>parentNode = None, children = [], attributes = Map.empty\<rparr>"

definition sample_dom :: dom where
  "sample_dom n =
     (if n = 0 then \<lparr>parentNode = None, children = [1], attributes = Map.empty\<rparr>
      else if n = 1 then \<lparr>parentNode = Some 0, children = [2], attributes = Map.empty\<rparr>
      else if n = 2 then \<lparr>parentNode = Some 1, children = [3, 4], attributes = Map.empty\<rparr>
      else if n = 3 then
        \<lparr>parentNode = Some 2, children = [5], attributes = Map.empty(''class'' \<mapsto> ''a b'')\<rparr>
      else if n = 4 then \<lparr>parentNode = Some 2, children = [], attributes = Map.empty\<rparr>
      else if n = 5 then \<lparr>parentNode = Some 3, children = [], attributes = Map.empty\<rparr>
      else blank)"

definition sample_browser :: collab where
  "sample_browser =
     \<lparr>computedStyle = (\<lambda>s x p. []),
      setProperty = (\<lambda>x name v s. s),
      get_innerText = (\<lambda>s x. []),
      set_innerText = (\<lambda>x v s. s),
      get_innerHTML = (\<lambda>s x. []),
      set_innerHTML = (\<lambda>x v s. s),
      querySelector = (\<lambda>s x sel. Inr None),
      querySelectorAll = (\<lambda>s x sel. Inr []),
      listed_node = (\<lambda>x. False),
      listed = (\<lambda>s x. []),
      other_method = (\<lambda>name this args s. (Inr JUndefined, s))\<rparr>"

text \<open>The same browser when element \<open>3\<close> is a form whose only control is element \<open>5\<close>.\<close>

definition form_browser :: collab where
  "form_browser =
     sample_browser\<lparr>listed_node := (\<lambda>x. x = 3), listed := (\<lambda>s x. if x = 3 then [5] else [])\<rparr>"

section \<open>Properties\<close>

subsection \<open>Basic facts\<close>

lemma this0_simps [simp]:
  "this0 (Handle l [] sel) = JUndefined"
  "this0 (Handle l (v # vs) sel) = v"
  by (simp_all add: this0_def handle_entry_def)

lemma isArg_always: "isArg name"
  by (simp add: isArg_def js_or_def)

lemma map_index_self: "map (\<lambda>i. if i < length xs then xs ! i else d) [0..<length xs] = xs"
  by (rule nth_equalityI) simp_all

lemma js_index_JArr_fun:
  "js_index B s (JArr xs) = (\<lambda>i. if i < length xs then xs ! i else JUndefined)"
  by (rule ext) simp

lemma Query_JArr:
  "Query B s (JArr xs) sel = Inr (Handle (JNum (int (length xs))) xs (js_or sel (JStr [])))"
  by (simp add: Query_def Let_def js_index_JArr_fun map_index_self)

lemma Query_JNode:
  "\<not> has_length B x \<Longrightarrow> Query B s (JNode x) sel = Inr (Handle (JNum 1) [JNode x] JUndefined)"
  by (simp add: Query_def)

lemma handle_entry_Handle:
  "handle_entry (Handle l xs sel) = (\<lambda>i. if i < length xs then xs ! i else JUndefined)"
  by (rule ext) (simp add: handle_entry_def)

lemma js_index_Handle:
  "js_index B s (JQuery (Handle l xs sel)) = (\<lambda>i. if i < length xs then xs ! i else JUndefined)"
  by (rule ext) (simp add: handle_entry_def)

lemma Query_JQuery:
  "Query B s (JQuery (Handle (JNum (int (length xs))) xs sel)) sel'
     = Inr (Handle (JNum (int (length xs))) xs (js_or sel' (JStr [])))"
  by (simp add: Query_def Let_def js_index_Handle map_index_self)

text \<open>
  A form is not wrapped: \<open>new Query(form, null)\<close> copies the controls of the form,
  here the one control \<open>5\<close> of the form \<open>3\<close>.
\<close>

lemma Query_listed:
  "has_length B x \<Longrightarrow>
   Query B s (JNode x) sel
     = Inr (Handle (JNum (int (length (listed B s x)))) (map JNode (listed B s x))
              (js_or sel (JStr [])))"
proof -
  assume h: "has_length B x"
  have "map (js_index B s (JNode x)) [0..<length (listed B s x)] = map JNode (listed B s x)"
    by (rule nth_equalityI) (simp_all add: h)
  with h show ?thesis by (simp add: Query_def)
qed

lemma Query_of_node:
  "Query B s (JNode x) JNull
     = Inr (if has_length B x
            then Handle (JNum (int (length (listed B s x)))) (map JNode (listed B s x)) (JStr [])
            else Handle (JNum 1) [JNode x] JUndefined)"
  by (simp add: Query_listed Query_JNode js_or_def)

lemma Query_of_form:
  "Query form_browser sample_dom (JNode 3) JNull = Inr (Handle (JNum 1) [JNode 5] (JStr []))"
  by (simp add: Query_def form_browser_def sample_browser_def has_length_def document_def js_or_def)

lemma sample_has_no_length: "\<not> has_length sample_browser x"
  by (simp add: has_length_def sample_browser_def)

lemma switch_cases_in_prototype:
  "map_of (switch_cases B) func = Some m \<Longrightarrow> func \<in> set Query_prototype"
  by (simp add: switch_cases_def Query_prototype_def split: if_splits)

subsection \<open>The batch dispatcher and an unknown name\<close>

text \<open>
  C1. The claim: for an operation name that is no Handle operation \<open>$.forQuery\<close>
  fails with the unknown-operation error, the name being checked once before the
  iteration, and no element is changed. The code, at the name \<open>doesNotExist\<close>:
  the name is no own property of \<open>Query.prototype\<close>, the \<open>switch\<close> is skipped and
  line 1204 returns the empty array; nothing is thrown and the document is as it
  was. The \<open>throw\<close> of line 1200 is reached only by a name that is a property of
  the prototype without a case of its own, such as \<open>child\<close>.
\<close>

theorem forQuery_unknown_name_returns_empty_array:
  "forQuery B Querys ''doesNotExist'' args s = (Inr (JArr []), s)
   \<and> forQuery B Querys ''child'' args s = (Inl MethodDoesNotExist, s)"
  by (simp add: forQuery_def Query_prototype_def switch_cases_def)

subsection \<open>Reading from an empty handle\<close>

text \<open>
  C3, as amended. On a handle of length 0 the calls without an argument \<open>text()\<close>,
  \<open>html()\<close> and \<open>class()\<close> fail with the engine's TypeError (a property of the
  undefined \<open>this[0]\<close> is read; the library has no error of its own for the empty
  handle); \<open>css()\<close> and \<open>attr()\<close> without an argument read nothing and return
  \<open>undefined\<close>; their reads of a named value, \<open>css(name)\<close> and \<open>attr(name)\<close>, fail
  with the TypeError.
\<close>

theorem empty_handle_reads:
  "text_m B (Handle (JNum 0) [] sel) [] s = (Inl TypeError, s)
   \<and> html B (Handle (JNum 0) [] sel) [] s = (Inl TypeError, s)
   \<and> class_m (Handle (JNum 0) [] sel) [] s = (Inl TypeError, s)
   \<and> css B (Handle (JNum 0) [] sel) [] s = (Inr JUndefined, s)
   \<and> attr (Handle (JNum 0) [] sel) [] s = (Inr JUndefined, s)
   \<and> css B (Handle (JNum 0) [] sel) [JStr p] s = (Inl TypeError, s)
   \<and> attr (Handle (JNum 0) [] sel) [JStr p] s = (Inl TypeError, s)"
  by (simp add: text_m_def html_def class_m_def css_def attr_def arg_def)

text \<open>
  C3 as stated fails: \<open>css()\<close> on the empty handle that a selector without a match
  gives returns \<open>undefined\<close> and raises nothing.
\<close>

theorem css_on_empty_handle_returns_undefined:
  "css sample_browser (Handle (JNum 0) [] (JStr [])) [] sample_dom = (Inr JUndefined, sample_dom)"
  by (simp add: css_def arg_def)

subsection \<open>Removing a child by its index\<close>

text \<open>
  C4. The claim: \<open>removeChild(i)\<close> removes the child at position \<open>i\<close>. The code:
  for every number \<open>i\<close> the call returns \<open>new Query(this[0], null)\<close>, which is a
  handle on \<open>this[0]\<close> (over the controls or options of \<open>this[0]\<close> when that is a
  form or select element), and leaves the document as it was; in the sample
  document element \<open>2\<close> still has its children \<open>3\<close> and \<open>4\<close> after \<open>removeChild(0)\<close>.
\<close>

theorem removeChild_index_removes_nothing:
  "removeChild B (Handle l (JNode x # xs) sel) [JNum i] s
     = (Inr (JQuery (if has_length B x
                     then Handle (JNum (int (length (listed B s x)))) (map JNode (listed B s x))
                            (JStr [])
                     else Handle (JNum 1) [JNode x] JUndefined)), s)
   \<and> children (snd (removeChild B (Handle (JNum 1) [JNode 2] JUndefined) [JNum 0] sample_dom) 2)
     = [3, 4]"
  by (simp add: removeChild_def arg_def return_Query_def Query_of_node sample_dom_def)

subsection \<open>The write with a name and a value\<close>

text \<open>
  C5. The claim: the two-argument write of \<open>css\<close> and \<open>attr\<close> checks that the
  value is a string or a number before it writes. The code: \<open>isArg\<close> is true for
  every argument, so \<open>attr("title", true)\<close> sets the attribute (to the string
  \<open>true\<close>) and \<open>css("color", true)\<close> hands the boolean to \<open>setProperty\<close>.
\<close>

theorem two_argument_write_is_not_validated:
  "attr (Handle (JNum 1) [JNode 1] JUndefined) [JStr ''title'', JBool True] s
     = (Inr (JQuery (Handle (JNum 1) [JNode 1] JUndefined)), store_attribute 1 ''title'' ''true'' s)
   \<and> css B (Handle (JNum 1) [JNode 1] JUndefined) [JStr ''color'', JBool True] s
     = (Inr (JQuery (Handle (JNum 1) [JNode 1] JUndefined)),
        setProperty B 1 (JStr ''color'') (JBool True) s)"
  by (simp add: attr_def css_def arg_def dom_setAttribute_def style_setProperty_def document_def
      setAttribute_def valid_attribute_name_def is_ws_def toLowerCase_def upper_lower_def
      isArg_always)

subsection \<open>The class attribute\<close>

lemma valid_token_iff: "valid_token tok \<longleftrightarrow> tok \<noteq> [] \<and> \<not> list_ex is_ws tok"
  by (simp add: valid_token_def token_error_def)

lemma split_ws_no_ws: "\<not> list_ex is_ws tok \<Longrightarrow> split_ws cur (tok @ rest) = split_ws (cur @ tok) rest"
  by (induction tok arbitrary: cur) simp_all

lemma split_ws_token: "valid_token tok \<Longrightarrow> split_ws [] tok = [tok]"
  using split_ws_no_ws [of tok "[]" "[]"] by (simp add: valid_token_iff)

lemma split_ws_token_space:
  "valid_token tok \<Longrightarrow> split_ws [] (tok @ CHR '' '' # rest) = tok # split_ws [] rest"
  using split_ws_no_ws [of tok "[]" "CHR '' '' # rest"] by (simp add: valid_token_iff is_ws_def)

lemma split_ws_join: "list_all valid_token toks \<Longrightarrow> split_ws [] (join '' '' toks) = toks"
  by (induction "'' ''" toks rule: join.induct) (simp_all add: split_ws_token split_ws_token_space)

lemma foldl_oset_append_distinct:
  "distinct (acc @ xs) \<Longrightarrow> foldl oset_append acc xs = acc @ xs"
  by (induction xs arbitrary: acc) (simp_all add: oset_append_def)

lemma parse_join:
  "list_all valid_token toks \<Longrightarrow> distinct toks \<Longrightarrow> ordered_set_parse (join '' '' toks) = toks"
  using foldl_oset_append_distinct [of "[]" toks] by (simp add: ordered_set_parse_def split_ws_join)

lemma split_ws_valid: "\<not> list_ex is_ws cur \<Longrightarrow> list_all valid_token (split_ws cur str)"
  by (induction str arbitrary: cur) (simp_all add: valid_token_iff)

lemma set_foldl_oset_append: "set (foldl oset_append acc xs) = set acc \<union> set xs"
  by (induction xs arbitrary: acc) (auto simp: oset_append_def)

lemma distinct_foldl_oset_append: "distinct acc \<Longrightarrow> distinct (foldl oset_append acc xs)"
  by (induction xs arbitrary: acc) (simp_all add: oset_append_def)

lemma parse_valid: "list_all valid_token (ordered_set_parse str)"
proof -
  have "list_all valid_token (split_ws [] str)" by (simp add: split_ws_valid)
  then show ?thesis
    by (simp add: ordered_set_parse_def list_all_iff set_foldl_oset_append)
qed

lemma parse_distinct: "distinct (ordered_set_parse str)"
  by (simp add: ordered_set_parse_def distinct_foldl_oset_append)

lemma classList_valid: "list_all valid_token (classList s x)"
  by (simp add: classList_def parse_valid)

lemma classList_distinct: "distinct (classList s x)"
  by (simp add: classList_def parse_distinct)

lemma classList_update_class:
  assumes "list_all valid_token toks" and "distinct toks"
  shows "classList (update_class x toks s) y = (if y = x then toks else classList s y)"
proof (cases "attributes (s x) ''class'' = None \<and> toks = []")
  case True
  then have "classList s x = []"
    by (simp add: classList_def className_def ordered_set_parse_def)
  with True show ?thesis by (simp add: update_class_def)
next
  case False
  then have "update_class x toks s = store_attribute x ''class'' (join '' '' toks) s"
    by (auto simp: update_class_def)
  then show ?thesis
    using parse_join [OF assms]
    by (simp add: classList_def className_def store_attribute_def)
qed

lemma class_set_add:
  assumes "valid_token tok"
  shows "\<exists>s'. classList_add x tok s = Inr s'
           \<and> class_set s' x = insert tok (class_set s x) \<and> (\<forall>y. y \<noteq> x \<longrightarrow> class_set s' y = class_set s y)"
proof -
  let ?toks = "oset_append (classList s x) tok"
  have v: "list_all valid_token ?toks"
    using assms classList_valid [of s x] by (simp add: oset_append_def)
  have d: "distinct ?toks"
    using classList_distinct [of s x] by (simp add: oset_append_def)
  have "classList_add x tok s = Inr (update_class x ?toks s)"
    using assms by (simp add: classList_add_def valid_token_def)
  moreover have "class_set (update_class x ?toks s) x = insert tok (class_set s x) \<and> (\<forall>y. y \<noteq> x \<longrightarrow> class_set (update_class x ?toks s) y = class_set s y)"
    unfolding class_set_def classList_update_class [OF v d] by (auto simp: oset_append_def)
  ultimately show ?thesis by blast
qed

lemma class_set_remove:
  assumes "valid_token tok"
  shows "\<exists>s'. classList_remove x tok s = Inr s'
           \<and> class_set s' x = class_set s x - {tok} \<and> (\<forall>y. y \<noteq> x \<longrightarrow> class_set s' y = class_set s y)"
proof -
  let ?toks = "removeAll tok (classList s x)"
  have v: "list_all valid_token ?toks"
    using classList_valid [of s x] by (simp add: list_all_iff)
  have d: "distinct ?toks"
    using classList_distinct [of s x] by (simp add: distinct_removeAll)
  have "classList_remove x tok s = Inr (update_class x ?toks s)"
    using assms by (simp add: classList_remove_def valid_token_def)
  moreover have "class_set (update_class x ?toks s) x = class_set s x - {tok} \<and> (\<forall>y. y \<noteq> x \<longrightarrow> class_set (update_class x ?toks s) y = class_set s y)"
    unfolding class_set_def classList_update_class [OF v d] by auto
  ultimately show ?thesis by blast
qed

lemma for_of_effect:
  assumes step: "\<And>c s. P c \<Longrightarrow> \<exists>s'. op c s = (Inr (), s')
            \<and> class_set s' x = G c (class_set s x) \<and> (\<forall>y. y \<noteq> x \<longrightarrow> class_set s' y = class_set s y)"
    and "list_all P cs"
  shows "\<exists>s'. for_of op cs s = (Inr (), s')
            \<and> class_set s' x = fold G cs (class_set s x) \<and> (\<forall>y. y \<noteq> x \<longrightarrow> class_set s' y = class_set s y)"
  using assms(2)
proof (induction cs arbitrary: s)
  case Nil
  then show ?case by simp
next
  case (Cons c cs)
  from Cons.prems have "P c" and rest: "list_all P cs" by simp_all
  from step [OF \<open>P c\<close>, of s] obtain s1 where
    s1: "op c s = (Inr (), s1)"
      "class_set s1 x = G c (class_set s x) \<and> (\<forall>y. y \<noteq> x \<longrightarrow> class_set s1 y = class_set s y)"
    by blast
  from Cons.IH [OF rest, of s1] obtain s2 where
    s2: "for_of op cs s1 = (Inr (), s2)"
      "class_set s2 x = fold G cs (class_set s1 x) \<and> (\<forall>y. y \<noteq> x \<longrightarrow> class_set s2 y = class_set s1 y)"
    by blast
  have "for_of op (c # cs) s = (Inr (), s2)" using s1(1) s2(1) by simp
  moreover have "class_set s2 x = fold G (c # cs) (class_set s x) \<and> (\<forall>y. y \<noteq> x \<longrightarrow> class_set s2 y = class_set s y)"
    using s1(2) s2(2) by simp
  ultimately show ?case by blast
qed

lemma dom_classList_add_effect:
  assumes "x \<noteq> document" and "valid_token (ToString c)"
  shows "\<exists>s'. dom_classList_add (JNode x) c s = (Inr (), s')
           \<and> class_set s' x = insert (ToString c) (class_set s x) \<and> (\<forall>y. y \<noteq> x \<longrightarrow> class_set s' y = class_set s y)"
  using class_set_add [OF assms(2), of x s] assms(1)
  by (auto simp: dom_classList_add_def)

lemma dom_classList_remove_effect:
  assumes "x \<noteq> document" and "valid_token (ToString c)"
  shows "\<exists>s'. dom_classList_remove (JNode x) c s = (Inr (), s')
           \<and> class_set s' x = class_set s x - {ToString c} \<and> (\<forall>y. y \<noteq> x \<longrightarrow> class_set s' y = class_set s y)"
  using class_set_remove [OF assms(2), of x s] assms(1)
  by (auto simp: dom_classList_remove_def)

lemma fold_insert_ToString: "fold (\<lambda>c. insert (ToString c)) cs S = S \<union> set (map ToString cs)"
  by (induction cs arbitrary: S) auto

lemma fold_remove_ToString: "fold (\<lambda>c S. S - {ToString c}) cs S = S - set (map ToString cs)"
  by (induction cs arbitrary: S) auto

lemma leaves_Cons: "leaves (v # vs) = leaves [v] @ leaves vs"
  by (cases v) simp_all

lemma fold_union_leaves: "fold (\<lambda>v S. S \<union> set (leaves [v])) vs S = S \<union> set (leaves vs)"
proof (induction vs arbitrary: S)
  case Nil
  then show ?case by simp
next
  case (Cons v vs)
  show ?case using Cons.IH [of "S \<union> set (leaves [v])"] leaves_Cons [of v vs] by auto
qed

lemma fold_minus_leaves: "fold (\<lambda>v S. S - set (leaves [v])) vs S = S - set (leaves vs)"
proof (induction vs arbitrary: S)
  case Nil
  then show ?case by simp
next
  case (Cons v vs)
  show ?case using Cons.IH [of "S - set (leaves [v])"] leaves_Cons [of v vs] by auto
qed

lemma strings_valid:
  "list_all (\<lambda>c. is_JStr c \<and> valid_token (ToString c)) cs \<Longrightarrow> list_all (\<lambda>c. valid_token (ToString c)) cs"
  by (simp add: list_all_iff)

lemma add_callback_effect:
  assumes "x \<noteq> document" and "class_argument v"
  shows "\<exists>s'. class_callback (dom_classList_add (JNode x)) v s = (Inr (), s')
           \<and> class_set s' x = class_set s x \<union> set (leaves [v]) \<and> (\<forall>y. y \<noteq> x \<longrightarrow> class_set s' y = class_set s y)"
proof (cases v)
  case (JStr str)
  with assms have "valid_token (ToString (JStr str))" by simp
  from dom_classList_add_effect [OF assms(1) this, of s] show ?thesis
    using JStr by (auto simp: class_callback_def)
next
  case (JArr cs)
  with assms have "list_all (\<lambda>c. valid_token (ToString c)) cs" by (simp add: strings_valid)
  from for_of_effect [of "\<lambda>c. valid_token (ToString c)" "dom_classList_add (JNode x)" x
      "\<lambda>c. insert (ToString c)" cs s, OF dom_classList_add_effect [OF assms(1)] this]
  show ?thesis using JArr by (simp add: class_callback_def fold_insert_ToString)
qed (use assms in simp_all)

lemma remove_callback_effect:
  assumes "x \<noteq> document" and "class_argument v"
  shows "\<exists>s'. class_callback (dom_classList_remove (JNode x)) v s = (Inr (), s')
           \<and> class_set s' x = class_set s x - set (leaves [v]) \<and> (\<forall>y. y \<noteq> x \<longrightarrow> class_set s' y = class_set s y)"
proof (cases v)
  case (JStr str)
  with assms have "valid_token (ToString (JStr str))" by simp
  from dom_classList_remove_effect [OF assms(1) this, of s] show ?thesis
    using JStr by (auto simp: class_callback_def)
next
  case (JArr cs)
  with assms have "list_all (\<lambda>c. valid_token (ToString c)) cs" by (simp add: strings_valid)
  from for_of_effect [of "\<lambda>c. valid_token (ToString c)" "dom_classList_remove (JNode x)" x
      "\<lambda>c S. S - {ToString c}" cs s, OF dom_classList_remove_effect [OF assms(1)] this]
  show ?thesis using JArr by (simp add: class_callback_def fold_remove_ToString)
qed (use assms in simp_all)

lemma addClass_effect:
  assumes "this0 this = JNode x" and "x \<noteq> document" and "args \<noteq> []"
    and "list_all class_argument args"
  shows "\<exists>s'. addClass this args s = (Inr (JQuery this), s')
           \<and> class_set s' x = class_set s x \<union> set (leaves args) \<and> (\<forall>y. y \<noteq> x \<longrightarrow> class_set s' y = class_set s y)"
proof (cases "length args = 1 \<and> typeof (arg args 0) = ''string''")
  case True
  then obtain v where args: "args = [v]" by (cases args) auto
  with True obtain str where v: "v = JStr str" by (cases v) (auto simp: arg_def)
  from assms(4) args v have "valid_token (ToString v)" by simp
  from dom_classList_add_effect [OF assms(2) this, of s] show ?thesis
    using True assms(1) args v by (auto simp: addClass_def arg_def)
next
  case False
  from for_of_effect [of class_argument "class_callback (dom_classList_add (JNode x))" x
      "\<lambda>v S. S \<union> set (leaves [v])" args s, OF add_callback_effect [OF assms(2)] assms(4)]
  show ?thesis using False assms(1,3) by (auto simp: addClass_def fold_union_leaves)
qed

lemma delClass_effect:
  assumes "this0 this = JNode x" and "x \<noteq> document" and "args \<noteq> []"
    and "list_all class_argument args"
  shows "\<exists>s'. delClass this args s = (Inr (JQuery this), s')
           \<and> class_set s' x = class_set s x - set (leaves args) \<and> (\<forall>y. y \<noteq> x \<longrightarrow> class_set s' y = class_set s y)"
proof (cases "length args = 1 \<and> typeof (arg args 0) = ''string''")
  case True
  then obtain v where args: "args = [v]" by (cases args) auto
  with True obtain str where v: "v = JStr str" by (cases v) (auto simp: arg_def)
  from assms(4) args v have "valid_token (ToString v)" by simp
  from dom_classList_remove_effect [OF assms(2) this, of s] show ?thesis
    using True assms(1) args v by (auto simp: delClass_def arg_def)
next
  case False
  from for_of_effect [of class_argument "class_callback (dom_classList_remove (JNode x))" x
      "\<lambda>v S. S - set (leaves [v])" args s, OF remove_callback_effect [OF assms(2)] assms(4)]
  show ?thesis using False assms(1,3) by (auto simp: delClass_def fold_minus_leaves)
qed

lemma sample_tokens: "valid_token ''a''" "valid_token ''b''" "valid_token ''c''"
  by (simp_all add: valid_token_def token_error_def is_ws_def)

subsection \<open>Adding and removing classes\<close>

text \<open>
  C7. On a handle whose \<open>this[0]\<close> is the element \<open>x\<close>: when \<open>x\<close> has no class,
  \<open>addClass(a, b)\<close> followed by \<open>delClass(a)\<close> leaves exactly the class \<open>b\<close>, and so
  does \<open>addClass(b, a)\<close> followed by \<open>delClass(a)\<close> (for any two different class names
  that \<open>classList\<close> accepts, \<open>"a"\<close> and \<open>"b"\<close> among them). With several arguments,
  each a string or an array of strings, \<open>addClass\<close> adds every leaf string to the
  set of classes and \<open>delClass\<close> removes every leaf string from it; both return the
  handle.
\<close>

theorem addClass_delClass_set_semantics:
  assumes "this0 this = JNode x" and "x \<noteq> document"
  shows "(class_set s x = {} \<and> valid_token a \<and> valid_token b \<and> a \<noteq> b \<longrightarrow>
            fst (addClass this [JStr a, JStr b] s) = Inr (JQuery this)
          \<and> fst (delClass this [JStr a] (snd (addClass this [JStr a, JStr b] s))) = Inr (JQuery this)
          \<and> class_set (snd (delClass this [JStr a] (snd (addClass this [JStr a, JStr b] s)))) x = {b}
          \<and> class_set (snd (delClass this [JStr a] (snd (addClass this [JStr b, JStr a] s)))) x = {b})
       \<and> (args \<noteq> [] \<and> list_all class_argument args \<longrightarrow>
            fst (addClass this args s) = Inr (JQuery this)
          \<and> class_set (snd (addClass this args s)) x = class_set s x \<union> set (leaves args)
          \<and> fst (delClass this args s) = Inr (JQuery this)
          \<and> class_set (snd (delClass this args s)) x = class_set s x - set (leaves args))"
proof (intro conjI impI)
  assume h: "class_set s x = {} \<and> valid_token a \<and> valid_token b \<and> a \<noteq> b"
  then have ab: "list_all class_argument [JStr a, JStr b]" "list_all class_argument [JStr b, JStr a]"
    and a: "list_all class_argument [JStr a]" by simp_all
  from addClass_effect [OF assms _ ab(1), of s] obtain s1 where
    s1: "addClass this [JStr a, JStr b] s = (Inr (JQuery this), s1)" "class_set s1 x = {a, b}"
    using h by auto
  from addClass_effect [OF assms _ ab(2), of s] obtain s1' where
    s1': "addClass this [JStr b, JStr a] s = (Inr (JQuery this), s1')" "class_set s1' x = {a, b}"
    using h by auto
  from delClass_effect [OF assms _ a, of s1] obtain s2 where
    s2: "delClass this [JStr a] s1 = (Inr (JQuery this), s2)" "class_set s2 x = {b}"
    using h s1(2) by auto
  from delClass_effect [OF assms _ a, of s1'] obtain s2' where
    s2': "delClass this [JStr a] s1' = (Inr (JQuery this), s2')" "class_set s2' x = {b}"
    using h s1'(2) by auto
  show "fst (addClass this [JStr a, JStr b] s) = Inr (JQuery this)" using s1 by simp
  show "fst (delClass this [JStr a] (snd (addClass this [JStr a, JStr b] s))) = Inr (JQuery this)"
    using s1 s2 by simp
  show "class_set (snd (delClass this [JStr a] (snd (addClass this [JStr a, JStr b] s)))) x = {b}"
    using s1 s2 by simp
  show "class_set (snd (delClass this [JStr a] (snd (addClass this [JStr b, JStr a] s)))) x = {b}"
    using s1' s2' by simp
next
  assume h: "args \<noteq> [] \<and> list_all class_argument args"
  from addClass_effect [OF assms, of args s] h obtain s1 where
    s1: "addClass this args s = (Inr (JQuery this), s1)"
      "class_set s1 x = class_set s x \<union> set (leaves args)" by blast
  from delClass_effect [OF assms, of args s] h obtain s2 where
    s2: "delClass this args s = (Inr (JQuery this), s2)"
      "class_set s2 x = class_set s x - set (leaves args)" by blast
  show "fst (addClass this args s) = Inr (JQuery this)" using s1 by simp
  show "class_set (snd (addClass this args s)) x = class_set s x \<union> set (leaves args)"
    using s1 by simp
  show "fst (delClass this args s) = Inr (JQuery this)" using s2 by simp
  show "class_set (snd (delClass this args s)) x = class_set s x - set (leaves args)"
    using s2 by simp
qed

text \<open>The theorem at element \<open>4\<close> of the sample document, which has no class.\<close>

theorem addClass_delClass_set_semantics_witness:
  "this0 (Handle (JNum 1) [JNode 4] JUndefined) = JNode 4 \<and> 4 \<noteq> document
   \<and> class_set sample_dom 4 = {} \<and> valid_token ''a'' \<and> valid_token ''b'' \<and> ''a'' \<noteq> ''b''
   \<and> class_set (snd (delClass (Handle (JNum 1) [JNode 4] JUndefined) [JStr ''a'']
        (snd (addClass (Handle (JNum 1) [JNode 4] JUndefined) [JStr ''a'', JStr ''b''] sample_dom)))) 4 = {''b''}
   \<and> class_set (snd (delClass (Handle (JNum 1) [JNode 4] JUndefined) [JStr ''a'']
        (snd (addClass (Handle (JNum 1) [JNode 4] JUndefined) [JStr ''b'', JStr ''a''] sample_dom)))) 4 = {''b''}
   \<and> [JStr ''c'', JArr [JStr ''a'', JStr ''b'']] \<noteq> []
   \<and> list_all class_argument [JStr ''c'', JArr [JStr ''a'', JStr ''b'']]
   \<and> class_set (snd (addClass (Handle (JNum 1) [JNode 4] JUndefined) [JStr ''c'', JArr [JStr ''a'', JStr ''b'']] sample_dom)) 4
       = {''a'', ''b'', ''c''}"
proof -
  have a: "this0 (Handle (JNum 1) [JNode 4] JUndefined) = JNode 4" by simp
  have b: "(4::nat) \<noteq> document" by (simp add: document_def)
  have c: "class_set sample_dom 4 = {}"
    by (simp add: class_set_def classList_def className_def sample_dom_def ordered_set_parse_def)
  have d: "list_all class_argument [JStr ''c'', JArr [JStr ''a'', JStr ''b'']]"
    by (simp add: sample_tokens)
  show ?thesis
    using addClass_delClass_set_semantics [OF a b, of sample_dom "''a''" "''b''" "[JStr ''c'', JArr [JStr ''a'', JStr ''b'']]"]
      a b c d sample_tokens by auto
qed

subsection \<open>Removing every class\<close>



subsection \<open>The entry point on a collection\<close>

text \<open>
  C8, as amended. For a collection of length at least 1, \<open>$\<close> gives a handle of
  the same length whose entries are the entries of the collection, in order; a
  collection of length 0 is refused with the exception of line 22.
\<close>

theorem dollar_collection:
  "dollar B (JArr []) s = Inl InvalidSelectorOrDom
   \<and> dollar B (JQuery (Handle (JNum 0) [] sel)) s = Inl InvalidSelectorOrDom
   \<and> (xs \<noteq> [] \<longrightarrow>
        dollar B (JArr xs) s = Inr (Handle (JNum (int (length xs))) xs (JStr []))
      \<and> dollar B (JQuery (Handle (JNum (int (length xs))) xs sel)) s
          = Inr (Handle (JNum (int (length xs))) xs (JStr [])))"
proof (intro conjI impI)
  show "dollar B (JArr []) s = Inl InvalidSelectorOrDom"
    by (simp add: dollar_def)
  show "dollar B (JQuery (Handle (JNum 0) [] sel)) s = Inl InvalidSelectorOrDom"
    by (simp add: dollar_def)
next
  assume "xs \<noteq> []"
  then have n: "1 \<le> int (length xs)" by (cases xs) simp_all
  show "dollar B (JArr xs) s = Inr (Handle (JNum (int (length xs))) xs (JStr []))"
    using n by (simp add: dollar_def Query_JArr js_or_def)
  show "dollar B (JQuery (Handle (JNum (int (length xs))) xs sel)) s
          = Inr (Handle (JNum (int (length xs))) xs (JStr []))"
    using n by (simp add: dollar_def Query_JQuery js_or_def)
qed

text \<open>The theorem at a collection of two elements of the sample document.\<close>

theorem dollar_collection_witness:
  "[JNode 3, JNode 4] \<noteq> []
   \<and> dollar sample_browser (JArr [JNode 3, JNode 4]) sample_dom
       = Inr (Handle (JNum 2) [JNode 3, JNode 4] (JStr []))
   \<and> dollar sample_browser (JQuery (Handle (JNum 2) [JNode 3, JNode 4] JUndefined)) sample_dom
       = Inr (Handle (JNum 2) [JNode 3, JNode 4] (JStr []))"
  using dollar_collection [of sample_browser sample_dom JUndefined "[JNode 3, JNode 4]"] by simp

text \<open>C8 as stated fails at the empty collection: no handle of length 0 is produced.\<close>

theorem dollar_empty_collection_is_refused:
  "dollar sample_browser (JArr []) sample_dom = Inl InvalidSelectorOrDom"
  by (simp add: dollar_def)

subsection \<open>Walking up to an ancestor\<close>

lemma parent_loop_reaches_document:
  "ancestor s d x = Some document \<Longrightarrow> d < k \<Longrightarrow> parent_loop s k (JNode x) = Inr (Returned (JNode document))"
proof (induction d arbitrary: x k)
  case 0
  then show ?case by (cases k) simp_all
next
  case (Suc d)
  then obtain k' where k: "k = Suc k'" and d: "d < k'" by (cases k) simp_all
  show ?case
  proof (cases "x = document")
    case True
    with k show ?thesis by simp
  next
    case False
    from Suc.prems(1) obtain p where p: "parentNode (s x) = Some p" "ancestor s d p = Some document"
      by (auto split: option.splits)
    with Suc.IH [OF p(2) d] False k show ?thesis by simp
  qed
qed

lemma parent_loop_walks:
  "ancestor s k x = Some y \<Longrightarrow> (\<forall>j<k. ancestor s j x \<noteq> Some document)
     \<Longrightarrow> parent_loop s k (JNode x) = Inr (Finished (JNode y))"
proof (induction k arbitrary: x)
  case 0
  then show ?case by simp
next
  case (Suc k)
  from Suc.prems(2) have nd: "x \<noteq> document" by (auto dest: spec [of _ 0])
  from Suc.prems(1) obtain p where p: "parentNode (s x) = Some p" "ancestor s k p = Some y"
    by (auto split: option.splits)
  have "\<forall>j<k. ancestor s j p \<noteq> Some document"
  proof (intro allI impI)
    fix j assume "j < k"
    then have "ancestor s (Suc j) x \<noteq> Some document" using Suc.prems(2) by (simp del: ancestor.simps)
    with p(1) show "ancestor s j p \<noteq> Some document" by simp
  qed
  from Suc.IH [OF p(2) this] nd p(1) show ?case by simp
qed

text \<open>Once \<open>domParent\<close> is \<open>null\<close>, a further turn of the loop reads \<open>null.parentNode\<close>.\<close>

lemma parent_loop_null:
  "parent_loop s k JNull = (if k = 0 then Inr (Finished JNull) else Inl TypeError)"
  by (cases k) simp_all

lemma parent_loop_detached:
  "ancestor s k x = Some r \<Longrightarrow> parentNode (s r) = None
     \<Longrightarrow> (\<forall>j\<le>k. ancestor s j x \<noteq> Some document) \<Longrightarrow> k < m
     \<Longrightarrow> parent_loop s m (JNode x) = (if m = Suc k then Inr (Finished JNull) else Inl TypeError)"
proof (induction k arbitrary: x m)
  case 0
  then obtain m' where m: "m = Suc m'" by (cases m) simp_all
  from 0 have "x = r" and "x \<noteq> document" by auto
  with 0 m show ?case by (simp add: parent_loop_null)
next
  case (Suc k)
  then obtain m' where m: "m = Suc m'" and k: "k < m'" by (cases m) simp_all
  from Suc.prems(3) have nd: "x \<noteq> document" by (auto dest: spec [of _ 0])
  from Suc.prems(1) obtain p where p: "parentNode (s x) = Some p" "ancestor s k p = Some r"
    by (auto split: option.splits)
  have "\<forall>j\<le>k. ancestor s j p \<noteq> Some document"
  proof (intro allI impI)
    fix j assume "j \<le> k"
    then have "ancestor s (Suc j) x \<noteq> Some document" using Suc.prems(3) by (simp del: ancestor.simps)
    with p(1) show "ancestor s j p \<noteq> Some document" by simp
  qed
  from Suc.IH [OF p(2) Suc.prems(2) this k] nd p(1) m show ?case by simp
qed

lemma sample_ancestors:
  "ancestor sample_dom 0 5 = Some 5" "ancestor sample_dom 1 5 = Some 3"
  "ancestor sample_dom 2 5 = Some 2" "ancestor sample_dom 4 5 = Some document"
  "ancestor sample_dom 0 7 = Some 7" "parentNode (sample_dom 7) = None"
  by (simp_all add: sample_dom_def blank_def document_def numeral_nat)

text \<open>
  C6, as amended. On a handle whose \<open>this[0]\<close> is the node \<open>x\<close>, and for an integer
  \<open>n > 1\<close>: when \<open>x\<close> has an \<open>n\<close>-th ancestor \<open>y\<close> and the document is not met on the
  first \<open>n\<close> steps, \<open>parent(n)\<close> returns \<open>new Query(y, null)\<close>, a handle on \<open>y\<close> (over
  the controls or options of \<open>y\<close> when \<open>y\<close> is a form or select element); when the
  document is reached after fewer than \<open>n\<close> links, \<open>parent(n)\<close> stops there and
  returns the document (the node itself, line 384), and nothing is raised; when
  the chain of parents ends before \<open>n\<close> links without meeting the document (\<open>x\<close> is
  not attached to the document), \<open>parent(n)\<close> raises a TypeError. The document is
  left as it was in each case.
\<close>

theorem parent_number:
  assumes "this0 this = JNode x" and "1 < n"
  shows "(ancestor s (nat n) x = Some y \<and> (\<forall>j<nat n. ancestor s j x \<noteq> Some document) \<longrightarrow>
            parent B this [JNum n] s
              = (Inr (JQuery (if has_length B y
                              then Handle (JNum (int (length (listed B s y))))
                                     (map JNode (listed B s y)) (JStr [])
                              else Handle (JNum 1) [JNode y] JUndefined)), s))
       \<and> (d < nat n \<and> ancestor s d x = Some document \<longrightarrow>
            parent B this [JNum n] s = (Inr (JNode document), s))
       \<and> (k < nat n \<and> ancestor s k x = Some r \<and> parentNode (s r) = None
            \<and> (\<forall>j\<le>k. ancestor s j x \<noteq> Some document) \<longrightarrow>
            parent B this [JNum n] s = (Inl TypeError, s))"
proof (intro conjI impI)
  assume h: "ancestor s (nat n) x = Some y \<and> (\<forall>j<nat n. ancestor s j x \<noteq> Some document)"
  then have "parent_loop s (nat n) (JNode x) = Inr (Finished (JNode y))"
    by (simp add: parent_loop_walks)
  with assms
  show "parent B this [JNum n] s
              = (Inr (JQuery (if has_length B y
                              then Handle (JNum (int (length (listed B s y))))
                                     (map JNode (listed B s y)) (JStr [])
                              else Handle (JNum 1) [JNode y] JUndefined)), s)"
    by (simp add: parent_def arg_def return_Query_def Query_of_node)
next
  assume "d < nat n \<and> ancestor s d x = Some document"
  then have "parent_loop s (nat n) (JNode x) = Inr (Returned (JNode document))"
    using parent_loop_reaches_document [of s d x "nat n"] by simp
  with assms show "parent B this [JNum n] s = (Inr (JNode document), s)"
    by (simp add: parent_def arg_def)
next
  assume h: "k < nat n \<and> ancestor s k x = Some r \<and> parentNode (s r) = None
            \<and> (\<forall>j\<le>k. ancestor s j x \<noteq> Some document)"
  then have l: "parent_loop s (nat n) (JNode x)
      = (if nat n = Suc k then Inr (Finished JNull) else Inl TypeError)"
    using parent_loop_detached [of s k x r "nat n"] by simp
  show "parent B this [JNum n] s = (Inl TypeError, s)"
  proof (cases "nat n = Suc k")
    case True
    with l assms show ?thesis
      by (simp add: parent_def arg_def return_Query_def Query_def)
  next
    case False
    with l assms show ?thesis
      by (simp add: parent_def arg_def)
  qed
qed

text \<open>
  The theorem at element \<open>5\<close> of the sample document, four links below the
  document, and at the detached node \<open>7\<close>; and where element \<open>2\<close>, two links above
  \<open>5\<close>, is a form with the one control \<open>4\<close>.
\<close>

theorem parent_number_witness:
  "this0 (Handle (JNum 1) [JNode 5] JUndefined) = JNode 5 \<and> (1::int) < 2 \<and> (1::int) < 7
   \<and> ancestor sample_dom 2 5 = Some 2
   \<and> parent sample_browser (Handle (JNum 1) [JNode 5] JUndefined) [JNum 2] sample_dom
       = (Inr (JQuery (Handle (JNum 1) [JNode 2] JUndefined)), sample_dom)
   \<and> parent (sample_browser\<lparr>listed_node := (\<lambda>x. x = 2), listed := (\<lambda>s x. [4])\<rparr>)
         (Handle (JNum 1) [JNode 5] JUndefined) [JNum 2] sample_dom
       = (Inr (JQuery (Handle (JNum 1) [JNode 4] (JStr []))), sample_dom)
   \<and> ancestor sample_dom 4 5 = Some document
   \<and> parent sample_browser (Handle (JNum 1) [JNode 5] JUndefined) [JNum 7] sample_dom
       = (Inr (JNode document), sample_dom)
   \<and> this0 (Handle (JNum 1) [JNode 7] JUndefined) = JNode 7
   \<and> ancestor sample_dom 0 7 = Some 7 \<and> parentNode (sample_dom 7) = None
   \<and> parent sample_browser (Handle (JNum 1) [JNode 7] JUndefined) [JNum 7] sample_dom
       = (Inl TypeError, sample_dom)"
proof -
  have a: "this0 (Handle (JNum 1) [JNode 5] JUndefined) = JNode 5" by simp
  have b: "this0 (Handle (JNum 1) [JNode 7] JUndefined) = JNode 7" by simp
  have n2: "(1::int) < 2" and n7: "(1::int) < 7" by simp_all
  have below: "\<forall>j<nat 2. ancestor sample_dom j 5 \<noteq> Some document"
  proof (intro allI impI)
    fix j :: nat assume "j < nat 2"
    then have "j = 0 \<or> j = 1" by auto
    then show "ancestor sample_dom j 5 \<noteq> Some document"
      using sample_ancestors by (auto simp: document_def)
  qed
  have alone: "\<forall>j\<le>0. ancestor sample_dom j 7 \<noteq> Some document"
    by (simp add: document_def)
  have up: "(4::nat) < nat 7" "(0::nat) < nat 7" by simp_all
  have f: "has_length (sample_browser\<lparr>listed_node := (\<lambda>x. x = 2), listed := (\<lambda>s x. [4])\<rparr>) 2"
    by (simp add: has_length_def document_def)
  from parent_number [OF a n2, where s = sample_dom and y = 2 and B = sample_browser]
    below sample_ancestors sample_has_no_length [of 2]
  have r2: "parent sample_browser (Handle (JNum 1) [JNode 5] JUndefined) [JNum 2] sample_dom
       = (Inr (JQuery (Handle (JNum 1) [JNode 2] JUndefined)), sample_dom)" by simp
  from parent_number [OF a n2, where s = sample_dom and y = 2
      and B = "sample_browser\<lparr>listed_node := (\<lambda>x. x = 2), listed := (\<lambda>s x. [4])\<rparr>"]
    below sample_ancestors f
  have f2: "parent (sample_browser\<lparr>listed_node := (\<lambda>x. x = 2), listed := (\<lambda>s x. [4])\<rparr>)
         (Handle (JNum 1) [JNode 5] JUndefined) [JNum 2] sample_dom
       = (Inr (JQuery (Handle (JNum 1) [JNode 4] (JStr []))), sample_dom)" by simp
  from parent_number [OF a n7, where s = sample_dom and d = 4 and B = sample_browser]
    up sample_ancestors
  have r7: "parent sample_browser (Handle (JNum 1) [JNode 5] JUndefined) [JNum 7] sample_dom
       = (Inr (JNode document), sample_dom)" by simp
  from parent_number [OF b n7, where s = sample_dom and k = 0 and r = 7 and B = sample_browser]
    up alone sample_ancestors
  have d7: "parent sample_browser (Handle (JNum 1) [JNode 7] JUndefined) [JNum 7] sample_dom
       = (Inl TypeError, sample_dom)" by simp
  show ?thesis using a b r2 f2 r7 d7 sample_ancestors by simp
qed

text \<open>
  C6 as stated fails at a node that is not attached to the document: node \<open>7\<close> of
  the sample document has no parent, and \<open>parent(2)\<close> on it raises a TypeError
  where the claim has an ancestor returned without raising.
\<close>

theorem parent_of_detached_node_raises:
  "parent sample_browser (Handle (JNum 1) [JNode 7] JUndefined) [JNum 2] sample_dom
     = (Inl TypeError, sample_dom)"
  by (simp add: parent_def arg_def numeral_2_eq_2 document_def sample_dom_def blank_def)

subsection \<open>The batch dispatcher\<close>

lemma forQuery_loop_nodes:
  "list_all (\<lambda>x. \<not> has_length B x) ns \<Longrightarrow>
   forQuery_loop B m (map JNode ns) args acc s =
     (case dispatch_spec m (map JNode ns) args s of
        (Inl e, s') \<Rightarrow> (Inl e, s')
      | (Inr rs, s') \<Rightarrow> (Inr (acc @ rs), s'))"
proof (induction ns arbitrary: acc s)
  case Nil
  then show ?case by simp
next
  case (Cons n ns)
  then have n: "\<not> has_length B n" and rest: "list_all (\<lambda>x. \<not> has_length B x) ns" by simp_all
  show ?case
    by (simp add: Query_JNode [OF n] Cons.IH [OF rest] split: prod.splits sum.splits)
qed

lemma forQuery_loop_length:
  "forQuery_loop B m qs args acc s = (Inr rs, s') \<Longrightarrow> length rs = length acc + length qs"
proof (induction qs arbitrary: acc s)
  case Nil
  then show ?case by simp
next
  case (Cons q qs)
  from Cons.prems obtain h r s1 where
    "forQuery_loop B m qs args (acc @ [r]) s1 = (Inr rs, s')"
    by (auto split: sum.splits prod.splits)
  from Cons.IH [OF this] show ?case by simp
qed

lemma dispatch_spec_unchanged:
  "list_all (\<lambda>x. m (Handle (JNum 1) [JNode x] JUndefined) args s = (Inr (f x), s)) ns \<Longrightarrow>
   dispatch_spec m (map JNode ns) args s = (Inr (map f ns), s)"
  by (induction ns) simp_all

lemma dispatch_spec_length:
  "dispatch_spec m es args s = (Inr rs, s') \<Longrightarrow> length rs = length es"
proof (induction es arbitrary: rs s s')
  case Nil
  then show ?case by simp
next
  case (Cons e es)
  then show ?case by (auto split: prod.splits sum.splits)
qed

lemma handle_entries:
  "map (handle_entry (Handle (JNum (int (length xs))) xs sel))
     [0..<iterations (JNum (int (length xs)))] = xs"
  by (simp add: handle_entry_Handle map_index_self)

lemma forQuery_switch:
  assumes "map_of (switch_cases B) func = Some m"
  shows "forQuery B Querys func args s =
          (case forQuery_loop B m (map (handle_entry Querys) [0..<iterations (hlength Querys)])
                  args [] s of
             (Inl e, s') \<Rightarrow> (Inl e, s')
           | (Inr rs, s') \<Rightarrow> (Inr (JArr rs), s'))"
  using assms switch_cases_in_prototype [OF assms]
  by (simp add: forQuery_def split: prod.splits sum.splits)

lemma addClass_x_effect:
  assumes "x \<noteq> document"
  shows "\<exists>s'. addClass (Handle (JNum 1) [JNode x] JUndefined) [JStr ''x''] s
              = (Inr (JQuery (Handle (JNum 1) [JNode x] JUndefined)), s')
           \<and> class_set s' x = insert ''x'' (class_set s x)
           \<and> (\<forall>y. y \<noteq> x \<longrightarrow> class_set s' y = class_set s y)"
proof -
  have "list_all class_argument [JStr ''x'']"
    by (simp add: valid_token_def token_error_def is_ws_def)
  from addClass_effect [OF _ assms _ this, of "Handle (JNum 1) [JNode x] JUndefined" s]
  show ?thesis by simp
qed

lemma addClass_x_keeps:
  assumes "x \<noteq> document"
  shows "\<exists>s'. addClass (Handle (JNum 1) [JNode x] JUndefined) [JStr ''x''] s
              = (Inr (JQuery (Handle (JNum 1) [JNode x] JUndefined)), s')
           \<and> ''x'' \<in> class_set s' x
           \<and> (\<forall>y. ''x'' \<in> class_set s y \<longrightarrow> ''x'' \<in> class_set s' y)"
proof -
  from addClass_x_effect [OF assms, of s] obtain s' where
    s': "addClass (Handle (JNum 1) [JNode x] JUndefined) [JStr ''x''] s
              = (Inr (JQuery (Handle (JNum 1) [JNode x] JUndefined)), s')"
      "class_set s' x = insert ''x'' (class_set s x)"
      "\<forall>y. y \<noteq> x \<longrightarrow> class_set s' y = class_set s y" by blast
  have "\<forall>y. ''x'' \<in> class_set s y \<longrightarrow> ''x'' \<in> class_set s' y"
  proof (intro allI impI)
    fix y assume "''x'' \<in> class_set s y"
    then show "''x'' \<in> class_set s' y" using s'(2,3) by (cases "y = x") simp_all
  qed
  with s' show ?thesis by simp
qed

lemma addClass_three:
  assumes "x1 \<noteq> document" and "x2 \<noteq> document" and "x3 \<noteq> document"
  shows "\<exists>s'. dispatch_spec addClass [JNode x1, JNode x2, JNode x3] [JStr ''x''] s
            = (Inr [JQuery (Handle (JNum 1) [JNode x1] JUndefined),
                    JQuery (Handle (JNum 1) [JNode x2] JUndefined),
                    JQuery (Handle (JNum 1) [JNode x3] JUndefined)], s')
          \<and> ''x'' \<in> class_set s' x1 \<and> ''x'' \<in> class_set s' x2 \<and> ''x'' \<in> class_set s' x3"
proof -
  from addClass_x_keeps [OF assms(1), of s] obtain s1 where
    s1: "addClass (Handle (JNum 1) [JNode x1] JUndefined) [JStr ''x''] s
              = (Inr (JQuery (Handle (JNum 1) [JNode x1] JUndefined)), s1)"
      "''x'' \<in> class_set s1 x1" by blast
  from addClass_x_keeps [OF assms(2), of s1] obtain s2 where
    s2: "addClass (Handle (JNum 1) [JNode x2] JUndefined) [JStr ''x''] s1
              = (Inr (JQuery (Handle (JNum 1) [JNode x2] JUndefined)), s2)"
      "''x'' \<in> class_set s2 x2" "\<forall>y. ''x'' \<in> class_set s1 y \<longrightarrow> ''x'' \<in> class_set s2 y" by blast
  from addClass_x_keeps [OF assms(3), of s2] obtain s3 where
    s3: "addClass (Handle (JNum 1) [JNode x3] JUndefined) [JStr ''x''] s2
              = (Inr (JQuery (Handle (JNum 1) [JNode x3] JUndefined)), s3)"
      "''x'' \<in> class_set s3 x3" "\<forall>y. ''x'' \<in> class_set s2 y \<longrightarrow> ''x'' \<in> class_set s3 y" by blast
  have "dispatch_spec addClass [JNode x1, JNode x2, JNode x3] [JStr ''x''] s
            = (Inr [JQuery (Handle (JNum 1) [JNode x1] JUndefined),
                    JQuery (Handle (JNum 1) [JNode x2] JUndefined),
                    JQuery (Handle (JNum 1) [JNode x3] JUndefined)], s3)"
    using s1(1) s2(1) s3(1) by simp
  moreover have "''x'' \<in> class_set s3 x1" using s1(2) s2(3) s3(3) by blast
  moreover have "''x'' \<in> class_set s3 x2" using s2(2) s3(3) by blast
  ultimately show ?thesis using s3(2) by blast
qed

text \<open>
  A form among the entries is not wrapped into a handle of length 1: the handle
  holds the controls of the form, and the operation works on the first of them.
  With element \<open>3\<close> (class \<open>a b\<close>) a form whose only control is element \<open>5\<close> (no
  class), \<open>$.forQuery(q, "class")\<close> over \<open>3\<close> gives the class of \<open>5\<close>.
\<close>

lemma forQuery_over_form:
  "forQuery form_browser (Handle (JNum 1) [JNode 3] (JStr [])) ''class'' [] sample_dom
     = (Inr (JArr [JStr []]), sample_dom)
   \<and> dispatch_spec class_m [JNode 3] [] sample_dom = (Inr [JStr ''a b''], sample_dom)"
  by (simp add: forQuery_def Query_prototype_def switch_cases_def handle_entry_def
      Query_of_form class_m_def arg_def document_def className_def sample_dom_def)

text \<open>
  C2, as amended. For a \<open>Query\<close> object over the nodes \<open>ns\<close>, none of them a form
  or select element, and a name with a case in the \<open>switch\<close>, \<open>$.forQuery\<close> does
  what the contract \<open>dispatch_spec\<close> says: in order, each node is wrapped into a
  handle of length 1, the operation is called on it with the forwarded arguments,
  and the results are returned as an array, which has as many entries as there are
  nodes (an exception of the operation leaves the loop and is the outcome). With
  \<open>addClass\<close> and \<open>"x"\<close> over three such elements the array holds the three handles
  in order and each element has the class \<open>x\<close> afterwards.
\<close>

theorem forQuery_dispatch:
  assumes "map_of (switch_cases B) func = Some m"
  shows "(list_all (\<lambda>x. \<not> has_length B x) ns \<longrightarrow>
          forQuery B (Handle (JNum (int (length ns))) (map JNode ns) sel) func args s =
           (case dispatch_spec m (map JNode ns) args s of
              (Inl e, s') \<Rightarrow> (Inl e, s')
            | (Inr rs, s') \<Rightarrow> (Inr (JArr rs), s')))
       \<and> (\<forall>rs s'. dispatch_spec m (map JNode ns) args s = (Inr rs, s') \<longrightarrow> length rs = length ns)
       \<and> (x1 \<noteq> document \<and> x2 \<noteq> document \<and> x3 \<noteq> document
            \<and> \<not> has_length B x1 \<and> \<not> has_length B x2 \<and> \<not> has_length B x3 \<longrightarrow>
            fst (forQuery B (Handle (JNum 3) [JNode x1, JNode x2, JNode x3] sel) ''addClass'' [JStr ''x''] s)
              = Inr (JArr [JQuery (Handle (JNum 1) [JNode x1] JUndefined),
                           JQuery (Handle (JNum 1) [JNode x2] JUndefined),
                           JQuery (Handle (JNum 1) [JNode x3] JUndefined)])
          \<and> ''x'' \<in> class_set (snd (forQuery B (Handle (JNum 3) [JNode x1, JNode x2, JNode x3] sel) ''addClass'' [JStr ''x''] s)) x1
          \<and> ''x'' \<in> class_set (snd (forQuery B (Handle (JNum 3) [JNode x1, JNode x2, JNode x3] sel) ''addClass'' [JStr ''x''] s)) x2
          \<and> ''x'' \<in> class_set (snd (forQuery B (Handle (JNum 3) [JNode x1, JNode x2, JNode x3] sel) ''addClass'' [JStr ''x''] s)) x3)"
proof (intro conjI impI allI)
  assume p: "list_all (\<lambda>x. \<not> has_length B x) ns"
  have e: "map (handle_entry (Handle (JNum (int (length ns))) (map JNode ns) sel))
             [0..<iterations (JNum (int (length ns)))] = map JNode ns"
    using handle_entries [of "map JNode ns" sel] by simp
  show "forQuery B (Handle (JNum (int (length ns))) (map JNode ns) sel) func args s =
           (case dispatch_spec m (map JNode ns) args s of
              (Inl e, s') \<Rightarrow> (Inl e, s')
            | (Inr rs, s') \<Rightarrow> (Inr (JArr rs), s'))"
    using e
    by (simp add: forQuery_switch [OF assms] forQuery_loop_nodes [OF p]
        split: prod.splits sum.splits)
next
  fix rs s' assume "dispatch_spec m (map JNode ns) args s = (Inr rs, s')"
  then show "length rs = length ns" using dispatch_spec_length by fastforce
next
  assume h: "x1 \<noteq> document \<and> x2 \<noteq> document \<and> x3 \<noteq> document
            \<and> \<not> has_length B x1 \<and> \<not> has_length B x2 \<and> \<not> has_length B x3"
  let ?Q = "Handle (JNum 3) [JNode x1, JNode x2, JNode x3] sel"
  have a: "map_of (switch_cases B) ''addClass'' = Some addClass" by (simp add: switch_cases_def)
  have p: "list_all (\<lambda>x. \<not> has_length B x) [x1, x2, x3]" using h by simp
  have e: "map (handle_entry ?Q) [0..<iterations (hlength ?Q)] = map JNode [x1, x2, x3]"
    using handle_entries [of "[JNode x1, JNode x2, JNode x3]" sel] by simp
  from addClass_three [of x1 x2 x3 s] h obtain s' where
    s': "dispatch_spec addClass (map JNode [x1, x2, x3]) [JStr ''x''] s
            = (Inr [JQuery (Handle (JNum 1) [JNode x1] JUndefined),
                    JQuery (Handle (JNum 1) [JNode x2] JUndefined),
                    JQuery (Handle (JNum 1) [JNode x3] JUndefined)], s')"
      "''x'' \<in> class_set s' x1" "''x'' \<in> class_set s' x2" "''x'' \<in> class_set s' x3" by auto
  have r: "forQuery B ?Q ''addClass'' [JStr ''x''] s
     = (Inr (JArr [JQuery (Handle (JNum 1) [JNode x1] JUndefined),
                    JQuery (Handle (JNum 1) [JNode x2] JUndefined),
                    JQuery (Handle (JNum 1) [JNode x3] JUndefined)]), s')"
    unfolding forQuery_switch [OF a] e forQuery_loop_nodes [OF p] s'(1) by simp
  show "fst (forQuery B ?Q ''addClass'' [JStr ''x''] s)
              = Inr (JArr [JQuery (Handle (JNum 1) [JNode x1] JUndefined),
                           JQuery (Handle (JNum 1) [JNode x2] JUndefined),
                           JQuery (Handle (JNum 1) [JNode x3] JUndefined)])"
    using r by simp
  show "''x'' \<in> class_set (snd (forQuery B ?Q ''addClass'' [JStr ''x''] s)) x1" using r s' by simp
  show "''x'' \<in> class_set (snd (forQuery B ?Q ''addClass'' [JStr ''x''] s)) x2" using r s' by simp
  show "''x'' \<in> class_set (snd (forQuery B ?Q ''addClass'' [JStr ''x''] s)) x3" using r s' by simp
qed

text \<open>The theorem at the elements \<open>3\<close>, \<open>4\<close> and \<open>5\<close> of the sample document.\<close>

theorem forQuery_dispatch_witness:
  "map_of (switch_cases sample_browser) ''addClass'' = Some addClass
   \<and> 3 \<noteq> document \<and> 4 \<noteq> document \<and> 5 \<noteq> document
   \<and> \<not> has_length sample_browser 3 \<and> \<not> has_length sample_browser 4
   \<and> \<not> has_length sample_browser 5
   \<and> fst (forQuery sample_browser (Handle (JNum 3) [JNode 3, JNode 4, JNode 5] (JStr [])) ''addClass'' [JStr ''x''] sample_dom)
       = Inr (JArr [JQuery (Handle (JNum 1) [JNode 3] JUndefined),
                    JQuery (Handle (JNum 1) [JNode 4] JUndefined),
                    JQuery (Handle (JNum 1) [JNode 5] JUndefined)])
   \<and> ''x'' \<in> class_set (snd (forQuery sample_browser (Handle (JNum 3) [JNode 3, JNode 4, JNode 5] (JStr [])) ''addClass'' [JStr ''x''] sample_dom)) 3
   \<and> ''x'' \<in> class_set (snd (forQuery sample_browser (Handle (JNum 3) [JNode 3, JNode 4, JNode 5] (JStr [])) ''addClass'' [JStr ''x''] sample_dom)) 4
   \<and> ''x'' \<in> class_set (snd (forQuery sample_browser (Handle (JNum 3) [JNode 3, JNode 4, JNode 5] (JStr [])) ''addClass'' [JStr ''x''] sample_dom)) 5"
proof -
  have a: "map_of (switch_cases sample_browser) ''addClass'' = Some addClass"
    by (simp add: switch_cases_def)
  have d: "(3::nat) \<noteq> document" "(4::nat) \<noteq> document" "(5::nat) \<noteq> document"
    by (simp_all add: document_def)
  from forQuery_dispatch [OF a, where ns = "[]" and sel = "JStr []" and args = "[JStr ''x'']"
      and s = sample_dom and ?x1.0 = 3 and ?x2.0 = 4 and ?x3.0 = 5]
    d a sample_has_no_length
  show ?thesis by simp
qed

text \<open>
  C2 as stated fails for an operation of the method table that has no case in the
  \<open>switch\<close>: \<open>each\<close> is a method of every handle, and \<open>$.forQuery\<close> refuses it at
  line 1200 without visiting an element.
\<close>

theorem forQuery_refuses_each:
  "''each'' \<in> set Query_prototype
   \<and> forQuery sample_browser (Handle (JNum 3) [JNode 3, JNode 4, JNode 5] (JStr [])) ''each'' [JFn 2]
         sample_dom
       = (Inl MethodDoesNotExist, sample_dom)"
  by (simp add: forQuery_def Query_prototype_def switch_cases_def)

subsection \<open>What the batch dispatcher returns\<close>

text \<open>
  C10, as amended. \<open>$.forQuery\<close> never returns the string of line 1204: the array
  \<open>dom\<close> is never equal to a fresh \<open>[]\<close>. For a name with a case in the \<open>switch\<close>
  the call either raises (the exception of the operation, or of wrapping an
  entry) or returns an array with one entry for each entry of the collection, the
  empty array for the empty collection. Over nodes that are no form or select
  elements the array is the one the contract \<open>dispatch_spec\<close> gives; and when the
  operation returns \<open>f x\<close> on the handle of each node \<open>x\<close> and leaves the document
  as it is, the array holds \<open>f x\<close> for each node, in order.
\<close>

theorem forQuery_returns_array:
  "fst (forQuery B Querys func args s) \<noteq> Inr (JStr error_text)
   \<and> (map_of (switch_cases B) func = Some m \<longrightarrow>
        ((\<exists>e. fst (forQuery B Querys func args s) = Inl e)
         \<or> (\<exists>rs. fst (forQuery B Querys func args s) = Inr (JArr rs)
                \<and> length rs = iterations (hlength Querys)))
      \<and> forQuery B (Handle (JNum 0) [] sel) func args s = (Inr (JArr []), s)
      \<and> (list_all (\<lambda>x. \<not> has_length B x) ns \<longrightarrow>
           forQuery B (Handle (JNum (int (length ns))) (map JNode ns) sel) func args s
             = (case dispatch_spec m (map JNode ns) args s of
                  (Inl e, s') \<Rightarrow> (Inl e, s')
                | (Inr rs, s') \<Rightarrow> (Inr (JArr rs), s')))
      \<and> (list_all (\<lambda>x. \<not> has_length B x) ns
           \<and> list_all (\<lambda>x. m (Handle (JNum 1) [JNode x] JUndefined) args s = (Inr (f x), s)) ns
           \<longrightarrow>
           forQuery B (Handle (JNum (int (length ns))) (map JNode ns) sel) func args s
             = (Inr (JArr (map f ns)), s)))"
proof (intro conjI impI)
  show "fst (forQuery B Querys func args s) \<noteq> Inr (JStr error_text)"
    by (simp add: forQuery_def split: option.splits prod.splits sum.splits)
next
  assume a: "map_of (switch_cases B) func = Some m"
  let ?es = "map (handle_entry Querys) [0..<iterations (hlength Querys)]"
  show "(\<exists>e. fst (forQuery B Querys func args s) = Inl e)
         \<or> (\<exists>rs. fst (forQuery B Querys func args s) = Inr (JArr rs)
                \<and> length rs = iterations (hlength Querys))"
  proof (cases "forQuery_loop B m ?es args [] s")
    case (Pair r s')
    show ?thesis
    proof (cases r)
      case (Inl e)
      with Pair show ?thesis by (simp add: forQuery_switch [OF a])
    next
      case (Inr rs)
      with Pair forQuery_loop_length [of B m ?es args "[]" s rs s'] show ?thesis
        by (simp add: forQuery_switch [OF a])
    qed
  qed
  show "forQuery B (Handle (JNum 0) [] sel) func args s = (Inr (JArr []), s)"
    by (simp add: forQuery_switch [OF a])
next
  assume a: "map_of (switch_cases B) func = Some m"
    and p: "list_all (\<lambda>x. \<not> has_length B x) ns"
  have e: "map (handle_entry (Handle (JNum (int (length ns))) (map JNode ns) sel))
             [0..<iterations (JNum (int (length ns)))] = map JNode ns"
    using handle_entries [of "map JNode ns" sel] by simp
  show "forQuery B (Handle (JNum (int (length ns))) (map JNode ns) sel) func args s
             = (case dispatch_spec m (map JNode ns) args s of
                  (Inl e, s') \<Rightarrow> (Inl e, s')
                | (Inr rs, s') \<Rightarrow> (Inr (JArr rs), s'))"
    using e
    by (simp add: forQuery_switch [OF a] forQuery_loop_nodes [OF p]
        split: prod.splits sum.splits)
next
  assume a: "map_of (switch_cases B) func = Some m"
    and h: "list_all (\<lambda>x. \<not> has_length B x) ns
           \<and> list_all (\<lambda>x. m (Handle (JNum 1) [JNode x] JUndefined) args s = (Inr (f x), s)) ns"
  from h have p: "list_all (\<lambda>x. \<not> has_length B x) ns" by simp
  have e: "map (handle_entry (Handle (JNum (int (length ns))) (map JNode ns) sel))
             [0..<iterations (JNum (int (length ns)))] = map JNode ns"
    using handle_entries [of "map JNode ns" sel] by simp
  from h have d: "dispatch_spec m (map JNode ns) args s = (Inr (map f ns), s)"
    by (simp add: dispatch_spec_unchanged)
  show "forQuery B (Handle (JNum (int (length ns))) (map JNode ns) sel) func args s
             = (Inr (JArr (map f ns)), s)"
    using e by (simp add: forQuery_switch [OF a] forQuery_loop_nodes [OF p] d)
qed

text \<open>The theorem at \<open>class()\<close> over the elements \<open>3\<close> and \<open>4\<close> of the sample document.\<close>

theorem forQuery_returns_array_witness:
  "map_of (switch_cases sample_browser) ''class'' = Some class_m
   \<and> list_all (\<lambda>x. \<not> has_length sample_browser x) [3, 4]
   \<and> list_all (\<lambda>x. class_m (Handle (JNum 1) [JNode x] JUndefined) [] sample_dom
                      = (Inr (JStr (className sample_dom x)), sample_dom)) [3, 4]
   \<and> forQuery sample_browser (Handle (JNum 2) [JNode 3, JNode 4] (JStr [])) ''class'' [] sample_dom
       = (Inr (JArr [JStr ''a b'', JStr []]), sample_dom)
   \<and> forQuery sample_browser (Handle (JNum 0) [] (JStr [])) ''class'' [] sample_dom
       = (Inr (JArr []), sample_dom)"
proof -
  have a: "map_of (switch_cases sample_browser) ''class'' = Some class_m"
    by (simp add: switch_cases_def)
  have p: "list_all (\<lambda>x. \<not> has_length sample_browser x) [3, 4]"
    by (simp add: sample_has_no_length)
  have c: "list_all (\<lambda>x. class_m (Handle (JNum 1) [JNode x] JUndefined) [] sample_dom
                      = (Inr (JStr (className sample_dom x)), sample_dom)) [3, 4]"
    by (simp add: class_m_def arg_def document_def)
  have v: "className sample_dom 3 = ''a b''" "className sample_dom 4 = []"
    by (simp_all add: className_def sample_dom_def)
  from forQuery_returns_array [where B = sample_browser and func = "''class''" and args = "[]"
      and s = sample_dom and m = class_m and sel = "JStr []" and ns = "[3, 4]"
      and f = "\<lambda>x. JStr (className sample_dom x)"
      and Querys = "Handle (JNum 2) [JNode 3, JNode 4] (JStr [])"] a p c v
  show ?thesis by simp
qed

text \<open>
  C10 as stated fails where an operation raises: \<open>addClass\<close> has a case in the
  \<open>switch\<close>, and \<open>$.forQuery(q, "addClass")\<close> without a class name ends with the
  exception of line 287 and returns no array.
\<close>

theorem forQuery_addClass_without_name_raises:
  "map_of (switch_cases sample_browser) ''addClass'' = Some addClass
   \<and> forQuery sample_browser (Handle (JNum 1) [JNode 3] (JStr [])) ''addClass'' [] sample_dom
       = (Inl NoClassNameGiven, sample_dom)"
  by (simp add: forQuery_def Query_prototype_def switch_cases_def handle_entry_def
      Query_JNode sample_has_no_length addClass_def)

end
